theory Spec2Isabelle
  imports Main "HOL-Library.Word"
begin

unbundle bit_operations_syntax

section \<open>The environment of \<^verbatim>\<open>convert_h5_weights.py\<close>\<close>

subsection \<open>Exceptions and results\<close>

text \<open>
  The exceptions the library calls of the script can raise. All of them derive from
  Python's \<^verbatim>\<open>Exception\<close>, so the clause \<^verbatim>\<open>except Exception\<close> catches every value of
  this type. A computation that may raise returns \<open>exn + 'a\<close>, \<open>Inl\<close> being the raise.
\<close>

datatype exn =
    KeyError
  | TypeError
  | ValueError
  | OSError
  | FileNotFoundError
  | IsADirectoryError
  | NotADirectoryError
  | FileExistsError

subsection \<open>Arrays and their float32 serialisation\<close>

text \<open>
  A numpy array: its shape and its elements in row-major order. Every array numpy builds
  holds as many elements as its shape says (\<open>wf_array\<close>).
\<close>

record 'e ndarray =
  arr_shape :: "nat list"
  arr_elems :: "'e list"

definition arr_size :: "'e ndarray \<Rightarrow> nat" where
  "arr_size a = prod_list (arr_shape a)"

definition wf_array :: "'e ndarray \<Rightarrow> bool" where
  "wf_array a \<longleftrightarrow> length (arr_elems a) = arr_size a"

type_synonym byte = "8 word"

text \<open>
  A float32 value is its IEEE 754 bit pattern, a 32-bit word. The conversion of a source
  element to float32 (\<^verbatim>\<open>astype(np.float32)\<close>) is a parameter \<open>cast\<close> of the model: it
  answers \<open>None\<close> where numpy raises (a string that is no number).
\<close>

type_synonym float32 = "32 word"

fun cast_all :: "('e \<Rightarrow> float32 option) \<Rightarrow> 'e list \<Rightarrow> float32 list option" where
  "cast_all cast [] = Some []"
| "cast_all cast (x # xs) =
     (case cast x of
        None \<Rightarrow> None
      | Some y \<Rightarrow> (case cast_all cast xs of None \<Rightarrow> None | Some ys \<Rightarrow> Some (y # ys)))"

definition astype_float32 :: "('e \<Rightarrow> float32 option) \<Rightarrow> 'e ndarray \<Rightarrow> exn + float32 ndarray" where
  "astype_float32 cast a =
     (case cast_all cast (arr_elems a) of
        None \<Rightarrow> Inl ValueError
      | Some ys \<Rightarrow> Inr \<lparr>arr_shape = arr_shape a, arr_elems = ys\<rparr>)"

text \<open>\<^verbatim>\<open>tobytes()\<close> of a float32 array on a little-endian machine: four bytes an element,
  least significant first, elements in row-major order.\<close>

definition float32_bytes :: "float32 \<Rightarrow> byte list" where
  "float32_bytes x = [ucast x, ucast (drop_bit 8 x), ucast (drop_bit 16 x), ucast (drop_bit 24 x)]"

definition tobytes :: "float32 ndarray \<Rightarrow> byte list" where
  "tobytes a = concat (map float32_bytes (arr_elems a))"

text \<open>\<^verbatim>\<open>nbytes\<close> is computed from the shape: element count times the item size 4.\<close>

definition nbytes :: "float32 ndarray \<Rightarrow> nat" where
  "nbytes a = 4 * arr_size a"

subsection \<open>The weight container\<close>

text \<open>
  What h5py shows of an opened container: groups holding named links, and datasets. A
  dataset has a shape; reading it gives its elements or raises (\<open>ds_data = None\<close>).
  Python evaluates \<^verbatim>\<open>name in d\<close> on a dataset \<open>d\<close> by iterating it and comparing each
  row with the string; what comes out depends on shape, element type and library
  version, so the dataset carries the outcome in \<open>ds_contains\<close>.
\<close>

record 'e dataset =
  ds_shape :: "nat list"
  ds_data :: "'e list option"
  ds_contains :: "string \<Rightarrow> exn + bool"

datatype 'e h5obj =
    Group "(string \<times> 'e h5obj) list"
  | Dataset "'e dataset"

text \<open>\<^verbatim>\<open>name in obj\<close>\<close>

fun h5_contains :: "'e h5obj \<Rightarrow> string \<Rightarrow> exn + bool" where
  "h5_contains (Group kids) k = Inr (k \<in> set (map fst kids))"
| "h5_contains (Dataset d) k = ds_contains d k"

text \<open>\<^verbatim>\<open>obj[name]\<close>: a missing link is a \<^verbatim>\<open>KeyError\<close>; a dataset takes no link name.\<close>

fun h5_getitem :: "'e h5obj \<Rightarrow> string \<Rightarrow> exn + 'e h5obj" where
  "h5_getitem (Group kids) k = (case map_of kids k of None \<Rightarrow> Inl KeyError | Some c \<Rightarrow> Inr c)"
| "h5_getitem (Dataset d) k = Inl ValueError"

text \<open>\<^verbatim>\<open>obj[:]\<close>: a group takes no slice, nor does a scalar dataset.\<close>

fun h5_read_all :: "'e h5obj \<Rightarrow> exn + 'e ndarray" where
  "h5_read_all (Group kids) = Inl TypeError"
| "h5_read_all (Dataset d) =
     (if ds_shape d = [] then Inl ValueError
      else case ds_data d of
             None \<Rightarrow> Inl OSError
           | Some xs \<Rightarrow> Inr \<lparr>arr_shape = ds_shape d, arr_elems = xs\<rparr>)"

subsection \<open>The file system and the console\<close>

text \<open>
  A path is resolved to its list of components: empty components and \<^verbatim>\<open>.\<close> are dropped,
  the working directory is the root, and there are neither symbolic links nor \<^verbatim>\<open>..\<close>
  (the paths compiled into \<^verbatim>\<open>main\<close> have none).
\<close>

fun split_slash :: "string \<Rightarrow> string list" where
  "split_slash [] = [[]]"
| "split_slash (c # cs) =
     (if c = CHR ''/'' then [] # split_slash cs
      else (case split_slash cs of [] \<Rightarrow> [[c]] | x # xs \<Rightarrow> (c # x) # xs))"

definition resolve :: "string \<Rightarrow> string list" where
  "resolve p = filter (\<lambda>c. c \<noteq> [] \<and> c \<noteq> ''.'') (split_slash p)"

text \<open>\<^verbatim>\<open>os.path.join\<close> of two parts (posixpath).\<close>

definition os_path_join :: "string \<Rightarrow> string \<Rightarrow> string" where
  "os_path_join a b =
     (if b \<noteq> [] \<and> hd b = CHR ''/'' then b
      else if a = [] \<or> last a = CHR ''/'' then a @ b
      else a @ ''/'' @ b)"

datatype node = Dir | File "byte list"

text \<open>One line of console output for each \<^verbatim>\<open>print\<close> of the script, with the values it formats.\<close>

datatype msg =
    StructureHeader string
  | StructureLine string "nat list option"
  | Extracted string "nat list"
  | ErrorExtracting exn
  | Written string "nat list" nat
  | CreatedBin string
  | TotalSize nat
  | Converting string
  | WarningNotFound string
  | FailedToExtract string
  | Success string
  | SavedTo string

record world =
  fs :: "string list \<rightharpoonup> node"
  out :: "msg list"

definition print :: "msg \<Rightarrow> world \<Rightarrow> world" where
  "print m w = w\<lparr>out := out w @ [m]\<rparr>"

text \<open>The root directory always exists.\<close>

definition node_at :: "world \<Rightarrow> string list \<Rightarrow> node option" where
  "node_at w p = (if p = [] then Some Dir else fs w p)"

definition os_path_exists :: "world \<Rightarrow> string \<Rightarrow> bool" where
  "os_path_exists w p \<longleftrightarrow> node_at w (resolve p) \<noteq> None"

text \<open>
  \<^verbatim>\<open>h5py.File(path, 'r')\<close>. The decoder of the container format is a parameter
  \<open>decode\<close>: it gives the links of the root group, or \<open>None\<close> for bytes that are no
  container, where h5py raises \<^verbatim>\<open>OSError\<close>. A container it accepts has only nodes
  that can be opened and listed; damage that would make \<^verbatim>\<open>visititems\<close> raise counts as
  damage that makes the opening raise, both standing before the \<^verbatim>\<open>try\<close> block of the
  Extractor. Reading the data of a dataset can still fail.
\<close>

definition h5py_File ::
  "(byte list \<Rightarrow> (string \<times> 'e h5obj) list option) \<Rightarrow> string \<Rightarrow> world \<Rightarrow> exn + 'e h5obj" where
  "h5py_File decode p w =
     (case node_at w (resolve p) of
        None \<Rightarrow> Inl FileNotFoundError
      | Some Dir \<Rightarrow> Inl IsADirectoryError
      | Some (File bs) \<Rightarrow> (case decode bs of None \<Rightarrow> Inl OSError | Some kids \<Rightarrow> Inr (Group kids)))"

text \<open>\<^verbatim>\<open>visititems(print_structure)\<close>: one line for every object below the root, parents first.\<close>

definition child_name :: "string \<Rightarrow> string \<Rightarrow> string" where
  "child_name prefix k = (if prefix = [] then k else prefix @ ''/'' @ k)"

fun visit_obj :: "string \<Rightarrow> 'e h5obj \<Rightarrow> msg list"
  and visit_kids :: "string \<Rightarrow> (string \<times> 'e h5obj) list \<Rightarrow> msg list" where
  "visit_obj nm (Group kids) = StructureLine nm None # visit_kids nm kids"
| "visit_obj nm (Dataset d) = [StructureLine nm (Some (ds_shape d))]"
| "visit_kids prefix [] = []"
| "visit_kids prefix ((k, c) # rest) = visit_obj (child_name prefix k) c @ visit_kids prefix rest"

fun visititems :: "'e h5obj \<Rightarrow> world \<Rightarrow> world" where
  "visititems (Group kids) w = w\<lparr>out := out w @ visit_kids [] kids\<rparr>"
| "visititems (Dataset d) w = w"

text \<open>
  The states meant are trees: what stands above a node is a directory. Looking a path
  up fails with \<^verbatim>\<open>NotADirectoryError\<close> when a regular file stands above it, and with
  \<^verbatim>\<open>FileNotFoundError\<close> when a directory on the way is missing.
\<close>

definition file_above :: "world \<Rightarrow> string list \<Rightarrow> bool" where
  "file_above w q \<longleftrightarrow>
     list_ex (\<lambda>i. case node_at w (take i q) of
                    Some (File bs) \<Rightarrow> True | Some Dir \<Rightarrow> False | None \<Rightarrow> False)
       [0..<length q]"

text \<open>
  \<^verbatim>\<open>open(path, 'wb')\<close>: the directory holding the file must exist; the file is created,
  or cut to length 0 when it exists. The handle returned is the resolved path.
\<close>

definition open_wb :: "string \<Rightarrow> world \<Rightarrow> (exn + string list) \<times> world" where
  "open_wb p w =
     (let q = resolve p in
      if q = [] then (Inl IsADirectoryError, w)
      else case node_at w (butlast q) of
             None \<Rightarrow>
               (if file_above w (butlast q) then (Inl NotADirectoryError, w)
                else (Inl FileNotFoundError, w))
           | Some (File bs) \<Rightarrow> (Inl NotADirectoryError, w)
           | Some Dir \<Rightarrow>
               (case node_at w q of
                  Some Dir \<Rightarrow> (Inl IsADirectoryError, w)
                | Some (File bs) \<Rightarrow> (Inr q, w\<lparr>fs := (fs w)(q \<mapsto> File [])\<rparr>)
                | None \<Rightarrow> (Inr q, w\<lparr>fs := (fs w)(q \<mapsto> File [])\<rparr>)))"

text \<open>\<^verbatim>\<open>f.write(bytes)\<close> appends to the open file.\<close>

definition file_bytes :: "world \<Rightarrow> string list \<Rightarrow> byte list" where
  "file_bytes w q = (case fs w q of Some (File bs) \<Rightarrow> bs | Some Dir \<Rightarrow> [] | None \<Rightarrow> [])"

definition file_write :: "string list \<Rightarrow> byte list \<Rightarrow> world \<Rightarrow> world" where
  "file_write q bs w = w\<lparr>fs := (fs w)(q \<mapsto> File (file_bytes w q @ bs))\<rparr>"

text \<open>
  \<^verbatim>\<open>os.makedirs(path, exist_ok=True)\<close>: every missing directory on the way is created,
  outermost first; a regular file on the way, or at the path itself, is an error.
\<close>

fun mkdirs :: "string list \<Rightarrow> string list \<Rightarrow> world \<Rightarrow> (exn + unit) \<times> world" where
  "mkdirs sofar [] w = (Inr (), w)"
| "mkdirs sofar (c # cs) w =
     (case node_at w (sofar @ [c]) of
        Some Dir \<Rightarrow> mkdirs (sofar @ [c]) cs w
      | Some (File bs) \<Rightarrow> (Inl (if cs = [] then FileExistsError else NotADirectoryError), w)
      | None \<Rightarrow> mkdirs (sofar @ [c]) cs (w\<lparr>fs := (fs w)(sofar @ [c] \<mapsto> Dir)\<rparr>))"

definition os_makedirs :: "string \<Rightarrow> world \<Rightarrow> (exn + unit) \<times> world" where
  "os_makedirs p w = (if p = [] then (Inl FileNotFoundError, w) else mkdirs [] (resolve p) w)"

text \<open>\<^verbatim>\<open>str.upper()\<close> on ASCII names.\<close>

definition upper_char :: "char \<Rightarrow> char" where
  "upper_char c =
     (if 97 \<le> (of_char c :: nat) \<and> (of_char c :: nat) \<le> 122
      then char_of ((of_char c :: nat) - 32) else c)"

definition upper :: "string \<Rightarrow> string" where
  "upper s = map upper_char s"

section \<open>The Extractor: \<^verbatim>\<open>extract_h5_weights\<close>\<close>

type_synonym 'e weights = "string \<rightharpoonup> 'e ndarray"

definition layer_names :: "string list" where
  "layer_names = [''dense'', ''dense_1'', ''dense_2'', ''dense_3'']"

text \<open>
  The two blocks of the loop body, for the kernel (index \<^verbatim>\<open>'0'\<close>) and the bias (index
  \<^verbatim>\<open>'1'\<close>), differ in the index and the key only:
  \<^verbatim>\<open>if '0' in vars_group: kernel = vars_group['0'][:]; weights[f'{layer_name}/kernel'] = kernel; print(...)\<close>
\<close>

definition extract_var ::
  "'e h5obj \<Rightarrow> string \<Rightarrow> string \<Rightarrow> 'e weights \<Rightarrow> world \<Rightarrow> (exn + 'e weights) \<times> world" where
  "extract_var vars_group idx key weights w =
     (case h5_contains vars_group idx of
        Inl e \<Rightarrow> (Inl e, w)
      | Inr False \<Rightarrow> (Inr weights, w)
      | Inr True \<Rightarrow>
          (case h5_getitem vars_group idx of
             Inl e \<Rightarrow> (Inl e, w)
           | Inr d \<Rightarrow>
               (case h5_read_all d of
                  Inl e \<Rightarrow> (Inl e, w)
                | Inr a \<Rightarrow> (Inr (weights(key \<mapsto> a)), print (Extracted key (arr_shape a)) w))))"

text \<open>The body of \<^verbatim>\<open>for layer_name in layer_names\<close>.\<close>

definition extract_layer ::
  "'e h5obj \<Rightarrow> string \<Rightarrow> 'e weights \<Rightarrow> world \<Rightarrow> (exn + 'e weights) \<times> world" where
  "extract_layer layers_root layer_name weights w =
     (case h5_contains layers_root layer_name of
        Inl e \<Rightarrow> (Inl e, w)
      | Inr False \<Rightarrow> (Inr weights, w)
      | Inr True \<Rightarrow>
          (case h5_getitem layers_root layer_name of
             Inl e \<Rightarrow> (Inl e, w)
           | Inr layer_group \<Rightarrow>
               (case h5_contains layer_group ''vars'' of
                  Inl e \<Rightarrow> (Inl e, w)
                | Inr False \<Rightarrow> (Inr weights, w)
                | Inr True \<Rightarrow>
                    (case h5_getitem layer_group ''vars'' of
                       Inl e \<Rightarrow> (Inl e, w)
                     | Inr vars_group \<Rightarrow>
                         (case extract_var vars_group ''0'' (layer_name @ ''/kernel'') weights w of
                            (Inl e, w1) \<Rightarrow> (Inl e, w1)
                          | (Inr weights1, w1) \<Rightarrow>
                              extract_var vars_group ''1'' (layer_name @ ''/bias'') weights1 w1)))))"

fun extract_layers ::
  "'e h5obj \<Rightarrow> string list \<Rightarrow> 'e weights \<Rightarrow> world \<Rightarrow> (exn + 'e weights) \<times> world" where
  "extract_layers layers_root [] weights w = (Inr weights, w)"
| "extract_layers layers_root (layer_name # rest) weights w =
     (case extract_layer layers_root layer_name weights w of
        (Inl e, w1) \<Rightarrow> (Inl e, w1)
      | (Inr weights1, w1) \<Rightarrow> extract_layers layers_root rest weights1 w1)"

text \<open>The \<^verbatim>\<open>try\<close> block: \<^verbatim>\<open>layers_root = f['layers']\<close>, then the loop.\<close>

definition try_block :: "'e h5obj \<Rightarrow> world \<Rightarrow> (exn + 'e weights) \<times> world" where
  "try_block f w =
     (case h5_getitem f ''layers'' of
        Inl e \<Rightarrow> (Inl e, w)
      | Inr layers_root \<Rightarrow> extract_layers layers_root layer_names Map.empty w)"

text \<open>
  The function returns a dictionary (\<open>Inr (Some weights)\<close>), returns \<^verbatim>\<open>None\<close>
  (\<open>Inr None\<close>, from the \<^verbatim>\<open>except\<close> clause) or raises (\<open>Inl e\<close>): opening the file
  and listing its structure stand before the \<^verbatim>\<open>try\<close>.
\<close>

definition extract_h5_weights ::
  "(byte list \<Rightarrow> (string \<times> 'e h5obj) list option) \<Rightarrow> string \<Rightarrow> world
     \<Rightarrow> (exn + 'e weights option) \<times> world" where
  "extract_h5_weights decode h5_file_path w =
     (case h5py_File decode h5_file_path w of
        Inl e \<Rightarrow> (Inl e, w)
      | Inr f \<Rightarrow>
          (case try_block f (visititems f (print (StructureHeader h5_file_path) w)) of
             (Inl e, w1) \<Rightarrow> (Inr None, print (ErrorExtracting e) w1)
           | (Inr weights, w1) \<Rightarrow> (Inr (Some weights), w1)))"

section \<open>The Packer: \<^verbatim>\<open>create_tfjs_weights\<close>\<close>

record spec =
  name :: string
  shape :: "nat list"
  dtype :: string

definition weight_order :: "string list" where
  "weight_order =
     [''dense/kernel'', ''dense/bias'',
      ''dense_1/kernel'', ''dense_1/bias'',
      ''dense_2/kernel'', ''dense_2/bias'',
      ''dense_3/kernel'', ''dense_3/bias'']"

text \<open>The loop \<^verbatim>\<open>for weight_name in weight_order\<close>, with the variables it updates.\<close>

fun write_weights ::
  "('e \<Rightarrow> float32 option) \<Rightarrow> 'e weights \<Rightarrow> string list \<Rightarrow> string list \<Rightarrow> spec list \<Rightarrow> nat
     \<Rightarrow> world \<Rightarrow> (exn + spec list \<times> nat) \<times> world" where
  "write_weights cast weights f [] weight_specs offset w = (Inr (weight_specs, offset), w)"
| "write_weights cast weights f (weight_name # rest) weight_specs offset w =
     (case weights weight_name of
        None \<Rightarrow> write_weights cast weights f rest weight_specs offset w
      | Some a \<Rightarrow>
          (case astype_float32 cast a of
             Inl e \<Rightarrow> (Inl e, w)
           | Inr weight_data \<Rightarrow>
               write_weights cast weights f rest
                 (weight_specs @
                    [\<lparr>name = weight_name, shape = arr_shape weight_data, dtype = ''float32''\<rparr>])
                 (offset + nbytes weight_data)
                 (print (Written weight_name (arr_shape weight_data) offset)
                    (file_write f (tobytes weight_data) w))))"

definition create_tfjs_weights ::
  "('e \<Rightarrow> float32 option) \<Rightarrow> 'e weights \<Rightarrow> string \<Rightarrow> world \<Rightarrow> (exn + spec list) \<times> world" where
  "create_tfjs_weights cast weights output_path w =
     (let bin_path = os_path_join output_path ''group1-shard1of1.bin'' in
      case open_wb bin_path w of
        (Inl e, w1) \<Rightarrow> (Inl e, w1)
      | (Inr f, w1) \<Rightarrow>
          (case write_weights cast weights f weight_order [] 0 w1 of
             (Inl e, w2) \<Rightarrow> (Inl e, w2)
           | (Inr (weight_specs, offset), w2) \<Rightarrow>
               (Inr weight_specs, print (TotalSize offset) (print (CreatedBin bin_path) w2))))"

section \<open>The driver: \<^verbatim>\<open>main\<close>\<close>



text \<open>
  The body of \<^verbatim>\<open>for model_name, h5_path in models\<close>. \<^verbatim>\<open>continue\<close> and the end of the
  body both give \<open>Inr ()\<close>; \<open>Inl e\<close> is an exception leaving the loop and \<^verbatim>\<open>main\<close>.
\<close>

definition convert_model ::
  "(byte list \<Rightarrow> (string \<times> 'e h5obj) list option) \<Rightarrow> ('e \<Rightarrow> float32 option) \<Rightarrow> string
     \<Rightarrow> string \<times> string \<Rightarrow> world \<Rightarrow> (exn + unit) \<times> world" where
  "convert_model decode cast base job w =
     (case job of (model_name, h5_path) \<Rightarrow>
        (let w0 = print (Converting (upper model_name)) w in
         if \<not> os_path_exists w0 h5_path then (Inr (), print (WarningNotFound h5_path) w0)
         else
           (case extract_h5_weights decode h5_path w0 of
              (Inl e, w1) \<Rightarrow> (Inl e, w1)
            | (Inr None, w1) \<Rightarrow> (Inr (), print (FailedToExtract h5_path) w1)
            | (Inr (Some weights), w1) \<Rightarrow>
                (let output_path = os_path_join base model_name in
                 case os_makedirs output_path w1 of
                   (Inl e, w2) \<Rightarrow> (Inl e, w2)
                 | (Inr u, w2) \<Rightarrow>
                     (case create_tfjs_weights cast weights output_path w2 of
                        (Inl e, w3) \<Rightarrow> (Inl e, w3)
                      | (Inr weight_specs, w3) \<Rightarrow>
                          (Inr (), print (SavedTo output_path) (print (Success model_name) w3)))))))"



section \<open>Notions used in the statements\<close>

subsection \<open>What the Packer is given and what it writes\<close>

text \<open>An array can be cast when no element makes \<^verbatim>\<open>astype\<close> raise; \<open>to_float32\<close> is the
  array the cast then gives: same shape, every element converted.\<close>

definition castable :: "('e \<Rightarrow> float32 option) \<Rightarrow> 'e ndarray \<Rightarrow> bool" where
  "castable cast a \<longleftrightarrow> cast_all cast (arr_elems a) \<noteq> None"

definition to_float32 :: "('e \<Rightarrow> float32 option) \<Rightarrow> 'e ndarray \<Rightarrow> float32 ndarray" where
  "to_float32 cast a = \<lparr>arr_shape = arr_shape a, arr_elems = map (\<lambda>x. the (cast x)) (arr_elems a)\<rparr>"

definition all_castable :: "('e \<Rightarrow> float32 option) \<Rightarrow> 'e weights \<Rightarrow> bool" where
  "all_castable cast weights \<longleftrightarrow>
     list_all (\<lambda>n. case weights n of None \<Rightarrow> True | Some a \<Rightarrow> castable cast a) weight_order"

definition all_wf :: "'e weights \<Rightarrow> bool" where
  "all_wf weights \<longleftrightarrow>
     list_all (\<lambda>n. case weights n of None \<Rightarrow> True | Some a \<Rightarrow> wf_array a) weight_order"

text \<open>The names among \<open>names\<close> that the WeightSet has, in the order of \<open>names\<close>.\<close>

definition present :: "'e weights \<Rightarrow> string list \<Rightarrow> string list" where
  "present weights names = filter (\<lambda>n. weights n \<noteq> None) names"

text \<open>The tensor stored under a name, cast to float32, and its manifest entry.\<close>

definition tensor :: "('e \<Rightarrow> float32 option) \<Rightarrow> 'e weights \<Rightarrow> string \<Rightarrow> float32 ndarray" where
  "tensor cast weights n = to_float32 cast (the (weights n))"

definition spec_of :: "'e weights \<Rightarrow> string \<Rightarrow> spec" where
  "spec_of weights n = \<lparr>name = n, shape = arr_shape (the (weights n)), dtype = ''float32''\<rparr>"

text \<open>The resolved place of the binary file in an output directory, and the state in
  which the Packer can open it: the directory is there and the file's name is not
  taken by a directory.\<close>

definition bin_file :: "string \<Rightarrow> string list" where
  "bin_file output_path = resolve output_path @ [''group1-shard1of1.bin'']"

definition pack_ready :: "world \<Rightarrow> string \<Rightarrow> bool" where
  "pack_ready w output_path \<longleftrightarrow>
     node_at w (resolve output_path) = Some Dir \<and> node_at w (bin_file output_path) \<noteq> Some Dir"

subsection \<open>Reading the binary file back\<close>





subsection \<open>Nodes of a container\<close>

text \<open>The object at a path of link names below an object, if there is one.\<close>

fun h5_lookup :: "'e h5obj \<Rightarrow> string list \<Rightarrow> 'e h5obj option" where
  "h5_lookup obj [] = Some obj"
| "h5_lookup (Group kids) (k # ks) =
     (case map_of kids k of None \<Rightarrow> None | Some c \<Rightarrow> h5_lookup c ks)"
| "h5_lookup (Dataset d) (k # ks) = None"

text \<open>A node that is absent or a group; a node that is absent or a dataset that
  \<^verbatim>\<open>[:]\<close> can read.\<close>

definition group_if_present :: "'e h5obj option \<Rightarrow> bool" where
  "group_if_present v =
     (case v of None \<Rightarrow> True | Some (Group kids) \<Rightarrow> True | Some (Dataset d) \<Rightarrow> False)"

definition readable_if_present :: "'e h5obj option \<Rightarrow> bool" where
  "readable_if_present v =
     (case v of
        None \<Rightarrow> True
      | Some (Group kids) \<Rightarrow> False
      | Some (Dataset d) \<Rightarrow> ds_shape d \<noteq> [] \<and> ds_data d \<noteq> None)"

text \<open>A layer as the script expects it, as far as it is present: \<^verbatim>\<open>layers/<name>\<close> and
  its \<^verbatim>\<open>vars\<close> are groups, \<^verbatim>\<open>vars/0\<close> and \<^verbatim>\<open>vars/1\<close> readable datasets.\<close>

definition layer_as_expected :: "'e h5obj \<Rightarrow> string \<Rightarrow> bool" where
  "layer_as_expected layers_root l \<longleftrightarrow>
     group_if_present (h5_lookup layers_root [l])
     \<and> group_if_present (h5_lookup layers_root [l, ''vars''])
     \<and> readable_if_present (h5_lookup layers_root [l, ''vars'', ''0''])
     \<and> readable_if_present (h5_lookup layers_root [l, ''vars'', ''1''])"

subsection \<open>What the driver needs and what it prints\<close>

text \<open>No regular file stands at the path or at a directory above it, so that
  \<^verbatim>\<open>os.makedirs\<close> can create what is missing.\<close>

definition no_file_on_way :: "world \<Rightarrow> string list \<Rightarrow> bool" where
  "no_file_on_way w q \<longleftrightarrow>
     list_all (\<lambda>i. case node_at w (take i q) of
                     Some (File bs) \<Rightarrow> False | Some Dir \<Rightarrow> True | None \<Rightarrow> True)
       [1..<Suc (length q)]"

text \<open>The output directory can be made and the binary file can be opened in it.\<close>

definition out_ready :: "world \<Rightarrow> string \<Rightarrow> bool" where
  "out_ready w output_path \<longleftrightarrow>
     output_path \<noteq> [] \<and> no_file_on_way w (resolve output_path)
     \<and> node_at w (bin_file output_path) \<noteq> Some Dir"

text \<open>The banners \<^verbatim>\<open>=== Converting ... model ===\<close> among the console lines: one is
  printed at the start of every pass through the driver's loop.\<close>

fun banner :: "msg \<Rightarrow> string list" where
  "banner (Converting n) = [n]"
| "banner m = []"

definition banners :: "msg list \<Rightarrow> string list" where
  "banners ms = concat (map banner ms)"

text \<open>A step that only prints, and prints no banner: its result does not depend on the
  state, and the state it leaves is the one it got with some lines added.\<close>

definition logs_only :: "(world \<Rightarrow> 'a \<times> world) \<Rightarrow> bool" where
  "logs_only F \<longleftrightarrow> (\<exists>r ms. banners ms = [] \<and> (\<forall>w. F w = (r, w\<lparr>out := out w @ ms\<rparr>)))"




subsection \<open>Sample data\<close>

text \<open>A file system with an output directory \<^verbatim>\<open>/out\<close> that already holds a three-byte
  \<^verbatim>\<open>group1-shard1of1.bin\<close>, and one where the directory is new.\<close>

definition used_world :: world where
  "used_world =
     \<lparr>fs = map_of [([''out''], Dir), ([''out'', ''group1-shard1of1.bin''], File [1, 2, 3])],
      out = []\<rparr>"

definition fresh_world :: world where
  "fresh_world = \<lparr>fs = map_of [([''out''], Dir)], out = []\<rparr>"

text \<open>Source arrays that are float32 already: the cast is the identity (\<open>Some\<close>).\<close>

definition no_weights :: "float32 weights" where
  "no_weights = Map.empty"

text \<open>A WeightSet with exactly \<^verbatim>\<open>dense/kernel\<close> of shape (4,3) and \<^verbatim>\<open>dense/bias\<close> of
  shape (3,).\<close>

definition two_tensors :: "float32 weights" where
  "two_tensors =
     map_of
       [(''dense/kernel'',
           \<lparr>arr_shape = [4, 3], arr_elems = [1, 2, 3, 4, 5, 6, 7, 8, 9, 10, 11, 12]\<rparr>),
        (''dense/bias'', \<lparr>arr_shape = [3], arr_elems = [256, 257, 65536]\<rparr>)]"

text \<open>A WeightSet without the layer \<^verbatim>\<open>dense_2\<close>.\<close>

definition six_tensors :: "float32 weights" where
  "six_tensors =
     map_of
       [(''dense/kernel'', \<lparr>arr_shape = [1, 1], arr_elems = [1]\<rparr>),
        (''dense/bias'', \<lparr>arr_shape = [1], arr_elems = [2]\<rparr>),
        (''dense_1/kernel'', \<lparr>arr_shape = [1, 1], arr_elems = [3]\<rparr>),
        (''dense_1/bias'', \<lparr>arr_shape = [1], arr_elems = [4]\<rparr>),
        (''dense_3/kernel'', \<lparr>arr_shape = [1, 1], arr_elems = [5]\<rparr>),
        (''dense_3/bias'', \<lparr>arr_shape = [1], arr_elems = [6]\<rparr>)]"

text \<open>
  A container with a complete layer \<^verbatim>\<open>dense\<close>, a layer \<^verbatim>\<open>dense_1\<close> with a kernel
  only, no layer \<^verbatim>\<open>dense_2\<close> and a layer \<^verbatim>\<open>dense_3\<close> without \<^verbatim>\<open>vars\<close>; one whose
  group \<^verbatim>\<open>layers\<close> is empty; one without \<^verbatim>\<open>layers\<close>. The sample decoder knows them by
  the bytes of their files and rejects all other files.
\<close>

definition sample_layers :: "(string \<times> float32 h5obj) list" where
  "sample_layers =
     [(''dense'',
         Group [(''vars'',
           Group [(''0'', Dataset \<lparr>ds_shape = [2, 1], ds_data = Some [1, 2],
                                  ds_contains = (\<lambda>k. Inr False)\<rparr>),
                  (''1'', Dataset \<lparr>ds_shape = [1], ds_data = Some [3],
                                  ds_contains = (\<lambda>k. Inr False)\<rparr>)])]),
      (''dense_1'',
         Group [(''vars'',
           Group [(''0'', Dataset \<lparr>ds_shape = [1, 1], ds_data = Some [4],
                                  ds_contains = (\<lambda>k. Inr False)\<rparr>)])]),
      (''dense_3'', Group [])]"

definition sample_container :: "(string \<times> float32 h5obj) list" where
  "sample_container = [(''layers'', Group sample_layers), (''optimizer'', Group [])]"

definition empty_container :: "(string \<times> float32 h5obj) list" where
  "empty_container = [(''layers'', Group [])]"

definition sample_decode :: "byte list \<Rightarrow> (string \<times> float32 h5obj) list option" where
  "sample_decode bs =
     (if bs = [137, 72, 68, 70] then Some sample_container
      else if bs = [137, 72, 68, 70, 0] then Some empty_container
      else if bs = [137, 72, 68, 70, 1] then Some []
      else None)"

definition input_world :: world where
  "input_world =
     \<lparr>fs = map_of
        [([''in''], Dir),
         ([''in'', ''full.h5''], File [137, 72, 68, 70]),
         ([''in'', ''empty.h5''], File [137, 72, 68, 70, 0]),
         ([''in'', ''nolayers.h5''], File [137, 72, 68, 70, 1]),
         ([''in'', ''broken.h5''], File [0, 1, 2])],
      out = []\<rparr>"

definition sample_weights :: "float32 weights" where
  "sample_weights =
     [''dense/kernel'' \<mapsto> \<lparr>arr_shape = [2, 1], arr_elems = [1, 2]\<rparr>,
      ''dense/bias'' \<mapsto> \<lparr>arr_shape = [1], arr_elems = [3]\<rparr>,
      ''dense_1/kernel'' \<mapsto> \<lparr>arr_shape = [1, 1], arr_elems = [4]\<rparr>]"


text \<open>A WeightSet with all eight slots; the tensors of \<^verbatim>\<open>dense_2\<close> hold 7 and 8.\<close>

definition eight_tensors :: "float32 weights" where
  "eight_tensors =
     map_of
       [(''dense_3/bias'', \<lparr>arr_shape = [1], arr_elems = [6]\<rparr>),
        (''dense_2/bias'', \<lparr>arr_shape = [1], arr_elems = [8]\<rparr>),
        (''dense/kernel'', \<lparr>arr_shape = [1, 1], arr_elems = [1]\<rparr>),
        (''dense_1/bias'', \<lparr>arr_shape = [1], arr_elems = [4]\<rparr>),
        (''dense_2/kernel'', \<lparr>arr_shape = [1, 1], arr_elems = [7]\<rparr>),
        (''dense/bias'', \<lparr>arr_shape = [1], arr_elems = [2]\<rparr>),
        (''dense_3/kernel'', \<lparr>arr_shape = [1, 1], arr_elems = [5]\<rparr>),
        (''dense_1/kernel'', \<lparr>arr_shape = [1, 1], arr_elems = [3]\<rparr>)]"

text \<open>
  A container in which all four layers are present, each in part: \<^verbatim>\<open>dense\<close> and
  \<^verbatim>\<open>dense_3\<close> with kernel and bias, \<^verbatim>\<open>dense_1\<close> with a kernel only, \<^verbatim>\<open>dense_2\<close>
  with a bias only; beside them a layer \<^verbatim>\<open>dense_4\<close> that is none of the four. Its file
  and a decoder that knows it.
\<close>

definition four_layers :: "(string \<times> float32 h5obj) list" where
  "four_layers =
     [(''dense'',
         Group [(''vars'',
           Group [(''0'', Dataset \<lparr>ds_shape = [2, 1], ds_data = Some [1, 2],
                                  ds_contains = (\<lambda>k. Inr False)\<rparr>),
                  (''1'', Dataset \<lparr>ds_shape = [1], ds_data = Some [3],
                                  ds_contains = (\<lambda>k. Inr False)\<rparr>)])]),
      (''dense_1'',
         Group [(''vars'',
           Group [(''0'', Dataset \<lparr>ds_shape = [1, 1], ds_data = Some [4],
                                  ds_contains = (\<lambda>k. Inr False)\<rparr>)])]),
      (''dense_2'',
         Group [(''vars'',
           Group [(''1'', Dataset \<lparr>ds_shape = [1], ds_data = Some [5],
                                  ds_contains = (\<lambda>k. Inr False)\<rparr>)])]),
      (''dense_3'',
         Group [(''vars'',
           Group [(''0'', Dataset \<lparr>ds_shape = [1, 2], ds_data = Some [6, 7],
                                  ds_contains = (\<lambda>k. Inr False)\<rparr>),
                  (''1'', Dataset \<lparr>ds_shape = [2], ds_data = Some [8, 9],
                                  ds_contains = (\<lambda>k. Inr False)\<rparr>)])]),
      (''dense_4'',
         Group [(''vars'',
           Group [(''0'', Dataset \<lparr>ds_shape = [1], ds_data = Some [10],
                                  ds_contains = (\<lambda>k. Inr False)\<rparr>)])])]"

definition four_container :: "(string \<times> float32 h5obj) list" where
  "four_container = [(''layers'', Group four_layers)]"

definition four_decode :: "byte list \<Rightarrow> (string \<times> float32 h5obj) list option" where
  "four_decode bs = (if bs = [137, 72, 68, 70, 4] then Some four_container else None)"

definition four_world :: world where
  "four_world =
     \<lparr>fs = map_of [([''in''], Dir), ([''in'', ''four.h5''], File [137, 72, 68, 70, 4])],
      out = []\<rparr>"

definition four_weights :: "float32 weights" where
  "four_weights =
     [''dense/kernel'' \<mapsto> \<lparr>arr_shape = [2, 1], arr_elems = [1, 2]\<rparr>,
      ''dense/bias'' \<mapsto> \<lparr>arr_shape = [1], arr_elems = [3]\<rparr>,
      ''dense_1/kernel'' \<mapsto> \<lparr>arr_shape = [1, 1], arr_elems = [4]\<rparr>,
      ''dense_2/bias'' \<mapsto> \<lparr>arr_shape = [1], arr_elems = [5]\<rparr>,
      ''dense_3/kernel'' \<mapsto> \<lparr>arr_shape = [1, 2], arr_elems = [6, 7]\<rparr>,
      ''dense_3/bias'' \<mapsto> \<lparr>arr_shape = [2], arr_elems = [8, 9]\<rparr>]"

section \<open>Paths\<close>

lemma split_slash_nonempty: "split_slash s \<noteq> []"
  by (induction s) (auto split: list.splits)

lemma split_slash_append: "split_slash (a @ CHR ''/'' # b) = split_slash a @ split_slash b"
  by (induction a) (auto split: list.splits simp: split_slash_nonempty)

lemma resolve_append: "resolve (a @ CHR ''/'' # b) = resolve a @ resolve b"
  by (simp add: resolve_def split_slash_append)

lemma resolve_join:
  assumes "b = [] \<or> hd b \<noteq> CHR ''/''"
  shows "resolve (os_path_join a b) = resolve a @ resolve b"
proof (cases "a = []")
  case True
  with assms show ?thesis by (auto simp: os_path_join_def resolve_def)
next
  case False
  show ?thesis
  proof (cases "last a = CHR ''/''")
    case True
    with False obtain a' where a: "a = a' @ [CHR ''/'']"
      by (metis append_butlast_last_id)
    have "resolve a = resolve a'"
      using resolve_append [of a' "[]"] by (simp add: a resolve_def)
    moreover have "resolve (a @ b) = resolve a' @ resolve b"
      using resolve_append [of a' b] by (simp add: a)
    ultimately show ?thesis using assms True False by (auto simp: os_path_join_def)
  next
    case F: False
    then show ?thesis using assms False resolve_append [of a b] by (auto simp: os_path_join_def)
  qed
qed

lemma resolve_bin: "resolve ''group1-shard1of1.bin'' = [''group1-shard1of1.bin'']"
  by (simp add: resolve_def)

lemma resolve_bin_path: "resolve (os_path_join p ''group1-shard1of1.bin'') = bin_file p"
  by (simp add: resolve_join resolve_bin bin_file_def)

lemma bin_file_nonempty: "bin_file p \<noteq> []" "bin_file p \<noteq> resolve p" "resolve p \<noteq> bin_file p"
  by (simp_all add: bin_file_def)

section \<open>The Packer's loop\<close>

lemma cast_all_Some: "cast_all cast xs \<noteq> None \<Longrightarrow> cast_all cast xs = Some (map (\<lambda>x. the (cast x)) xs)"
  by (induction xs) (auto split: option.splits)

lemma astype_float32_eq:
  "astype_float32 cast a = (if castable cast a then Inr (to_float32 cast a) else Inl ValueError)"
  using cast_all_Some [of cast "arr_elems a"]
  by (auto simp: astype_float32_def castable_def to_float32_def)

lemma all_castable_iff:
  "all_castable cast weights \<longleftrightarrow> (\<forall>n\<in>set weight_order. \<forall>a. weights n = Some a \<longrightarrow> castable cast a)"
  by (auto simp: all_castable_def list_all_iff split: option.splits)

lemma all_wf_iff:
  "all_wf weights \<longleftrightarrow> (\<forall>n\<in>set weight_order. \<forall>a. weights n = Some a \<longrightarrow> wf_array a)"
  by (auto simp: all_wf_def list_all_iff split: option.splits)

lemma write_weights_step:
  assumes "weights n = Some a" and "castable cast a"
  shows "write_weights cast weights f (n # names) specs off w =
           write_weights cast weights f names (specs @ [spec_of weights n])
             (off + nbytes (tensor cast weights n))
             (print (Written n (arr_shape a) off) (file_write f (tobytes (tensor cast weights n)) w))"
  using assms by (simp add: astype_float32_eq tensor_def spec_of_def to_float32_def)

lemma write_weights_raise:
  assumes "weights n = Some a" and "\<not> castable cast a"
  shows "write_weights cast weights f (n # names) specs off w = (Inl ValueError, w)"
  using assms by (simp add: astype_float32_eq)

lemma file_write_at:
  assumes "fs w f = Some (File bs)"
  shows "fs (print m (file_write f xs w)) f = Some (File (bs @ xs))"
    and "(fs (print m (file_write f xs w)))(f \<mapsto> y) = (fs w)(f \<mapsto> y)"
    and "q \<noteq> f \<Longrightarrow> fs (print m (file_write f xs w)) q = fs w q"
  using assms by (simp_all add: print_def file_write_def file_bytes_def)

lemma write_weights_ok:
  assumes "\<forall>n\<in>set names. \<forall>a. weights n = Some a \<longrightarrow> castable cast a"
    and "fs w f = Some (File bs)"
  shows "fst (write_weights cast weights f names specs off w) =
           Inr (specs @ map (spec_of weights) (present weights names),
                off + sum_list (map (\<lambda>n. nbytes (tensor cast weights n)) (present weights names)))
       \<and> fs (snd (write_weights cast weights f names specs off w)) =
           (fs w)(f \<mapsto> File (bs @ concat (map (\<lambda>n. tobytes (tensor cast weights n)) (present weights names))))"
  using assms
proof (induction names arbitrary: specs off w bs)
  case Nil
  then show ?case by (auto simp: present_def)
next
  case (Cons n names)
  from Cons.prems(1) have r: "\<forall>n\<in>set names. \<forall>a. weights n = Some a \<longrightarrow> castable cast a"
    by simp
  show ?case
  proof (cases "weights n")
    case None
    then show ?thesis using Cons.IH [OF r Cons.prems(2)] by (simp add: present_def)
  next
    case (Some a)
    with Cons.prems have c: "castable cast a" by simp
    have p: "present weights (n # names) = n # present weights names"
      using Some by (simp add: present_def)
    note f = file_write_at [OF Cons.prems(2)]
    show ?thesis
      unfolding write_weights_step [of weights n a cast, OF Some c] p
      using Cons.IH [OF r f(1), of "specs @ [spec_of weights n]" "off + nbytes (tensor cast weights n)"]
      by (simp add: f(2))
  qed
qed

lemma write_weights_none:
  assumes "\<forall>n\<in>set names. weights n = None"
  shows "write_weights cast weights f names specs off w = (Inr (specs, off), w)"
  using assms by (induction names) auto

text \<open>What the loop returns and leaves in the file depends on the file's content at the
  start only, not on the rest of the state.\<close>

lemma write_weights_indep:
  assumes "fs w1 f = Some (File bs)" and "fs w2 f = Some (File bs)"
  shows "fst (write_weights cast weights f names specs off w1) =
           fst (write_weights cast weights f names specs off w2)
       \<and> fs (snd (write_weights cast weights f names specs off w1)) f =
           fs (snd (write_weights cast weights f names specs off w2)) f"
  using assms
proof (induction names arbitrary: specs off w1 w2 bs)
  case Nil
  then show ?case by simp
next
  case (Cons n names)
  show ?case
  proof (cases "weights n")
    case None
    then show ?thesis using Cons.IH [OF Cons.prems] by simp
  next
    case (Some a)
    show ?thesis
    proof (cases "castable cast a")
      case False
      show ?thesis
        unfolding write_weights_raise [of weights n a cast, OF Some False] using Cons.prems by simp
    next
      case True
      show ?thesis
        unfolding write_weights_step [of weights n a cast, OF Some True]
        by (rule Cons.IH [OF file_write_at(1) [OF Cons.prems(1)] file_write_at(1) [OF Cons.prems(2)]])
    qed
  qed
qed

text \<open>The loop touches the open file only, and leaves a regular file there.\<close>

lemma write_weights_frame:
  assumes "fs w f = Some (File bs)"
  shows "(\<exists>bs'. fs (snd (write_weights cast weights f names specs off w)) f = Some (File bs'))
       \<and> (\<forall>q. q \<noteq> f \<longrightarrow> fs (snd (write_weights cast weights f names specs off w)) q = fs w q)"
  using assms
proof (induction names arbitrary: specs off w bs)
  case Nil
  then show ?case by simp
next
  case (Cons n names)
  show ?case
  proof (cases "weights n")
    case None
    then show ?thesis using Cons.IH [OF Cons.prems] by simp
  next
    case (Some a)
    show ?thesis
    proof (cases "castable cast a")
      case False
      show ?thesis
        unfolding write_weights_raise [of weights n a cast, OF Some False] using Cons.prems by simp
    next
      case True
      note f = file_write_at [OF Cons.prems]
      show ?thesis
        unfolding write_weights_step [of weights n a cast, OF Some True]
        using Cons.IH [OF f(1)] f(3) by simp
    qed
  qed
qed

section \<open>The Packer\<close>

lemma open_wb_ready:
  assumes "pack_ready w output_path"
  shows "open_wb (os_path_join output_path ''group1-shard1of1.bin'') w =
           (Inr (bin_file output_path), w\<lparr>fs := (fs w)(bin_file output_path \<mapsto> File [])\<rparr>)"
  using assms
  by (auto simp: open_wb_def resolve_bin_path Let_def pack_ready_def bin_file_def
      split: option.splits node.splits)

lemma create_tfjs_weights_via:
  fixes cast :: "'e \<Rightarrow> float32 option" and weights :: "'e weights"
  assumes "pack_ready w p"
  defines "r \<equiv> write_weights cast weights (bin_file p) weight_order [] 0
                 (w\<lparr>fs := (fs w)(bin_file p \<mapsto> File [])\<rparr>)"
  shows "fst (create_tfjs_weights cast weights p w) = map_sum id fst (fst r)"
    and "fs (snd (create_tfjs_weights cast weights p w)) = fs (snd r)"
proof -
  obtain x w2 where r: "r = (x, w2)" by (cases r)
  have c: "create_tfjs_weights cast weights p w =
      (case r of (Inl e, w2) \<Rightarrow> (Inl e, w2)
       | (Inr (weight_specs, offset), w2) \<Rightarrow>
           (Inr weight_specs, print (TotalSize offset)
              (print (CreatedBin (os_path_join p ''group1-shard1of1.bin'')) w2)))"
    by (simp add: create_tfjs_weights_def open_wb_ready [OF assms(1)] r_def)
  show "fst (create_tfjs_weights cast weights p w) = map_sum id fst (fst r)"
    unfolding c r by (cases x) (simp_all add: split_beta)
  show "fs (snd (create_tfjs_weights cast weights p w)) = fs (snd r)"
    unfolding c r by (cases x) (simp_all add: split_beta print_def)
qed

lemma create_tfjs_weights_ok:
  assumes "pack_ready w output_path" and "all_castable cast weights"
  shows "fst (create_tfjs_weights cast weights output_path w) =
           Inr (map (spec_of weights) (present weights weight_order))"
    and "fs (snd (create_tfjs_weights cast weights output_path w)) =
           (fs w)(bin_file output_path \<mapsto>
              File (concat (map (\<lambda>n. tobytes (tensor cast weights n)) (present weights weight_order))))"
proof -
  let ?w1 = "w\<lparr>fs := (fs w)(bin_file output_path \<mapsto> File [])\<rparr>"
  have f: "fs ?w1 (bin_file output_path) = Some (File [])" by simp
  from assms(2) have c: "\<forall>n\<in>set weight_order. \<forall>a. weights n = Some a \<longrightarrow> castable cast a"
    by (simp add: all_castable_iff)
  note W = write_weights_ok [OF c f, of "[]" 0]
  show "fst (create_tfjs_weights cast weights output_path w) =
           Inr (map (spec_of weights) (present weights weight_order))"
    using W by (simp add: create_tfjs_weights_via(1) [OF assms(1)])
  show "fs (snd (create_tfjs_weights cast weights output_path w)) =
           (fs w)(bin_file output_path \<mapsto>
              File (concat (map (\<lambda>n. tobytes (tensor cast weights n)) (present weights weight_order))))"
    using W by (simp add: create_tfjs_weights_via(2) [OF assms(1)])
qed

lemma create_tfjs_weights_frame:
  assumes "pack_ready w p"
  shows "\<exists>bs'. fs (snd (create_tfjs_weights cast weights p w)) (bin_file p) = Some (File bs')"
    and "q \<noteq> bin_file p \<Longrightarrow> fs (snd (create_tfjs_weights cast weights p w)) q = fs w q"
proof -
  let ?w1 = "w\<lparr>fs := (fs w)(bin_file p \<mapsto> File [])\<rparr>"
  have f: "fs ?w1 (bin_file p) = Some (File [])" by simp
  note F = write_weights_frame [OF f, of cast weights weight_order "[]" 0]
  show "\<exists>bs'. fs (snd (create_tfjs_weights cast weights p w)) (bin_file p) = Some (File bs')"
    using F by (simp add: create_tfjs_weights_via(2) [OF assms])
  show "fs (snd (create_tfjs_weights cast weights p w)) q = fs w q" if "q \<noteq> bin_file p"
    using F that by (simp add: create_tfjs_weights_via(2) [OF assms])
qed

lemma pack_ready_after:
  assumes "pack_ready w p"
  shows "pack_ready (snd (create_tfjs_weights cast weights p w)) p"
proof -
  let ?w' = "snd (create_tfjs_weights cast weights p w)"
  obtain bs' where b: "fs ?w' (bin_file p) = Some (File bs')"
    using create_tfjs_weights_frame(1) [OF assms] by blast
  have d: "fs ?w' (resolve p) = fs w (resolve p)"
    by (rule create_tfjs_weights_frame(2) [OF assms]) (rule bin_file_nonempty(3))
  from assms have "node_at w (resolve p) = Some Dir" by (simp add: pack_ready_def)
  then have "node_at ?w' (resolve p) = Some Dir"
    using d by (cases "resolve p = []") (simp_all add: node_at_def)
  moreover have "node_at ?w' (bin_file p) \<noteq> Some Dir"
    using b by (simp add: node_at_def bin_file_nonempty)
  ultimately show ?thesis by (simp add: pack_ready_def)
qed

lemma create_tfjs_weights_indep:
  assumes "pack_ready w1 p" and "pack_ready w2 p"
  shows "fst (create_tfjs_weights cast weights p w1) = fst (create_tfjs_weights cast weights p w2)
       \<and> node_at (snd (create_tfjs_weights cast weights p w1)) (bin_file p) =
           node_at (snd (create_tfjs_weights cast weights p w2)) (bin_file p)"
proof -
  let ?v1 = "w1\<lparr>fs := (fs w1)(bin_file p \<mapsto> File [])\<rparr>"
  let ?v2 = "w2\<lparr>fs := (fs w2)(bin_file p \<mapsto> File [])\<rparr>"
  have "fs ?v1 (bin_file p) = Some (File [])" "fs ?v2 (bin_file p) = Some (File [])" by simp_all
  note I = write_weights_indep [OF this, of cast weights weight_order "[]" 0]
  show ?thesis using I
    by (simp add: create_tfjs_weights_via [OF assms(1)] create_tfjs_weights_via [OF assms(2)]
        node_at_def bin_file_nonempty)
qed

section \<open>Sizes and reading back\<close>


lemma length_float32_bytes: "length (float32_bytes x) = 4"
  by (simp add: float32_bytes_def)

lemma length_concat_float32_bytes: "length (concat (map float32_bytes xs)) = 4 * length xs"
  by (induction xs) (simp_all add: length_float32_bytes)

lemma length_tobytes: "length (tobytes t) = 4 * length (arr_elems t)"
  by (simp add: tobytes_def length_concat_float32_bytes)




lemma wf_tensor:
  assumes "weights n = Some a" and "wf_array a"
  shows "wf_array (tensor cast weights n)"
  using assms by (simp add: tensor_def to_float32_def wf_array_def arr_size_def)

lemma present_Some: "n \<in> set (present weights names) \<Longrightarrow> n \<in> set names \<and> (\<exists>a. weights n = Some a)"
  by (auto simp: present_def)

lemma length_packed:
  assumes "all_wf weights"
  shows "length (concat (map (\<lambda>n. tobytes (tensor cast weights n)) (present weights weight_order))) =
           sum_list (map (\<lambda>n. 4 * arr_size (the (weights n))) (present weights weight_order))"
proof -
  have "length (tobytes (tensor cast weights n)) = 4 * arr_size (the (weights n))"
    if "n \<in> set (present weights weight_order)" for n
  proof -
    from that obtain a where a: "weights n = Some a" "n \<in> set weight_order"
      using present_Some by blast
    with assms have "wf_array a" by (auto simp: all_wf_iff)
    from wf_tensor [of weights n a cast, OF a(1) this] show ?thesis
      using a by (simp add: length_tobytes wf_array_def tensor_def to_float32_def arr_size_def)
  qed
  then show ?thesis
    by (simp add: length_concat o_def cong: map_cong)
qed

section \<open>The Extractor's loop\<close>

lemma h5_contains_Group: "h5_contains (Group kids) k = Inr (map_of kids k \<noteq> None)"
  by (simp add: map_of_eq_None_iff)

lemma extract_var_keys:
  assumes "extract_var vg idx key weights w = (Inr weights1, w1)"
  shows "weights1 k \<noteq> None \<longleftrightarrow> weights k \<noteq> None \<or> (k = key \<and> h5_lookup vg [idx] \<noteq> None)"
proof (cases vg)
  case (Group kids)
  show ?thesis
  proof (cases "map_of kids idx")
    case None
    with assms Group show ?thesis
      by (simp add: extract_var_def h5_contains_Group del: h5_contains.simps)
  next
    case (Some d)
    with assms Group show ?thesis
      by (auto simp add: extract_var_def h5_contains_Group simp del: h5_contains.simps
          split: sum.splits)
  qed
next
  case (Dataset d)
  with assms show ?thesis
    by (auto simp: extract_var_def split: sum.splits bool.splits)
qed

lemma extract_layer_keys:
  assumes "extract_layer lr l weights w = (Inr weights1, w1)"
  shows "weights1 k \<noteq> None \<longleftrightarrow>
           weights k \<noteq> None
         \<or> (k = l @ ''/kernel'' \<and> h5_lookup lr [l, ''vars'', ''0''] \<noteq> None)
         \<or> (k = l @ ''/bias'' \<and> h5_lookup lr [l, ''vars'', ''1''] \<noteq> None)"
proof (cases lr)
  case (Dataset d)
  with assms show ?thesis
    by (auto simp: extract_layer_def split: sum.splits bool.splits)
next
  case (Group kids)
  show ?thesis
  proof (cases "map_of kids l")
    case None
    with assms Group show ?thesis
      by (simp add: extract_layer_def h5_contains_Group del: h5_contains.simps)
  next
    case (Some lg)
    note lg = this
    show ?thesis
    proof (cases lg)
      case D: (Dataset d)
      with assms Group lg show ?thesis
        by (auto simp: extract_layer_def h5_contains_Group simp del: h5_contains.simps
            split: sum.splits bool.splits)
    next
      case G: (Group gs)
      show ?thesis
      proof (cases "map_of gs ''vars''")
        case None
        with assms Group lg G show ?thesis
          by (simp add: extract_layer_def h5_contains_Group del: h5_contains.simps)
      next
        case (Some vg)
        have lk: "h5_lookup lr [l, ''vars'', idx] = h5_lookup vg [idx]" for idx
          using Group lg G Some by simp
        from assms Group lg G Some obtain wm wa where
          1: "extract_var vg ''0'' (l @ ''/kernel'') weights w = (Inr wm, wa)" and
          2: "extract_var vg ''1'' (l @ ''/bias'') wm wa = (Inr weights1, w1)"
          by (auto simp: extract_layer_def h5_contains_Group simp del: h5_contains.simps
              split: sum.splits prod.splits)
        show ?thesis
          unfolding lk extract_var_keys [OF 2] extract_var_keys [OF 1] by blast
      qed
    qed
  qed
qed

lemma extract_layers_keys:
  assumes "extract_layers lr ls weights w = (Inr weights1, w1)"
  shows "weights1 k \<noteq> None \<longleftrightarrow>
           weights k \<noteq> None
         \<or> (\<exists>l\<in>set ls. (k = l @ ''/kernel'' \<and> h5_lookup lr [l, ''vars'', ''0''] \<noteq> None)
                      \<or> (k = l @ ''/bias'' \<and> h5_lookup lr [l, ''vars'', ''1''] \<noteq> None))"
  using assms
proof (induction ls arbitrary: weights w)
  case Nil
  then show ?case by simp
next
  case (Cons l ls)
  from Cons.prems obtain wm wa where
    1: "extract_layer lr l weights w = (Inr wm, wa)" and
    2: "extract_layers lr ls wm wa = (Inr weights1, w1)"
    by (auto split: sum.splits prod.splits)
  show ?case
    unfolding Cons.IH [OF 2] extract_layer_keys [OF 1] by auto
qed

lemma extract_var_ok:
  assumes "readable_if_present (h5_lookup (Group vs) [idx])"
  shows "\<exists>weights1 w1. extract_var (Group vs) idx key weights w = (Inr weights1, w1)"
proof (cases "map_of vs idx")
  case None
  then show ?thesis
    by (simp add: extract_var_def h5_contains_Group del: h5_contains.simps)
next
  case (Some d)
  with assms show ?thesis
    by (cases d)
      (auto simp: extract_var_def h5_contains_Group readable_if_present_def
        simp del: h5_contains.simps)
qed

lemma extract_layer_ok:
  assumes "layer_as_expected (Group kids) l"
  shows "\<exists>weights1 w1. extract_layer (Group kids) l weights w = (Inr weights1, w1)"
proof (cases "map_of kids l")
  case None
  then show ?thesis
    by (simp add: extract_layer_def h5_contains_Group del: h5_contains.simps)
next
  case (Some lg)
  with assms obtain gs where lg: "lg = Group gs"
    by (cases lg) (auto simp: layer_as_expected_def group_if_present_def)
  show ?thesis
  proof (cases "map_of gs ''vars''")
    case None
    with Some lg show ?thesis
      by (simp add: extract_layer_def h5_contains_Group del: h5_contains.simps)
  next
    case V: (Some vg)
    with assms Some lg obtain vs where vg: "vg = Group vs"
      by (cases vg) (auto simp: layer_as_expected_def group_if_present_def)
    from assms Some lg V vg
    have r0: "readable_if_present (h5_lookup (Group vs) [''0''])"
      and r1: "readable_if_present (h5_lookup (Group vs) [''1''])"
      by (simp_all add: layer_as_expected_def)
    obtain wm wa where 1: "extract_var (Group vs) ''0'' (l @ ''/kernel'') weights w = (Inr wm, wa)"
      using extract_var_ok [OF r0] by blast
    obtain wn wb where 2: "extract_var (Group vs) ''1'' (l @ ''/bias'') wm wa = (Inr wn, wb)"
      using extract_var_ok [OF r1] by blast
    show ?thesis
      using Some lg V vg 1 2
      by (simp add: extract_layer_def h5_contains_Group del: h5_contains.simps)
  qed
qed

lemma extract_layers_ok:
  assumes "\<forall>l\<in>set ls. layer_as_expected (Group kids) l"
  shows "\<exists>weights1 w1. extract_layers (Group kids) ls weights w = (Inr weights1, w1)"
  using assms
proof (induction ls arbitrary: weights w)
  case Nil
  then show ?case by simp
next
  case (Cons l ls)
  then have "layer_as_expected (Group kids) l" by simp
  from extract_layer_ok [OF this] obtain wm wa where
    1: "extract_layer (Group kids) l weights w = (Inr wm, wa)" by blast
  from Cons have "\<forall>l\<in>set ls. layer_as_expected (Group kids) l" by simp
  from Cons.IH [OF this] show ?case using 1 by simp
qed

section \<open>The Extractor\<close>

lemma h5py_File_Group: "h5py_File decode p w = Inr f \<Longrightarrow> \<exists>kids. f = Group kids"
  by (auto simp: h5py_File_def split: option.splits node.splits)

lemma try_block_layers:
  assumes "h5_lookup (Group kids) [''layers''] = Some lr"
  shows "try_block (Group kids) w = extract_layers lr layer_names Map.empty w"
    and "h5_lookup (Group kids) (''layers'' # path) = h5_lookup lr path"
  using assms by (auto simp: try_block_def split: option.splits)

lemma extract_h5_weights_opened:
  assumes "h5py_File decode p w = Inr f"
  shows "fst (extract_h5_weights decode p w) =
           (case fst (try_block f (visititems f (print (StructureHeader p) w))) of
              Inl e \<Rightarrow> Inr None | Inr weights \<Rightarrow> Inr (Some weights))"
  using assms by (simp add: extract_h5_weights_def split: prod.splits sum.splits)

lemma kernel_bias_keys:
  "l @ ''/kernel'' = l' @ ''/kernel'' \<longleftrightarrow> l = l'"
  "l @ ''/bias'' = l' @ ''/bias'' \<longleftrightarrow> l = l'"
  "l @ ''/kernel'' \<noteq> l' @ ''/bias''"
  "l @ ''/bias'' \<noteq> l' @ ''/kernel''"
proof -
  show "l @ ''/kernel'' = l' @ ''/kernel'' \<longleftrightarrow> l = l'" by simp
  show "l @ ''/bias'' = l' @ ''/bias'' \<longleftrightarrow> l = l'" by simp
  have "last (l @ ''/kernel'') \<noteq> last (l' @ ''/bias'')" by simp
  then show "l @ ''/kernel'' \<noteq> l' @ ''/bias''" by metis
  have "last (l @ ''/bias'') \<noteq> last (l' @ ''/kernel'')" by simp
  then show "l @ ''/bias'' \<noteq> l' @ ''/kernel''" by metis
qed

lemma node_at_bin: "node_at w (bin_file p) = fs w (bin_file p)"
  by (simp add: node_at_def bin_file_nonempty)

lemma names_spec_of: "map (name \<circ> spec_of weights) ns = ns"
  by (induction ns) (simp_all add: spec_of_def)

lemma shapes_spec_of:
  assumes "\<forall>n\<in>set ns. weights n \<noteq> None"
  shows "map (shape \<circ> spec_of weights) ns = map (arr_shape \<circ> tensor cast weights) ns"
  by (simp add: spec_of_def tensor_def to_float32_def)

section \<open>Creating directories\<close>

lemma node_at_fs: "fs w = fs w' \<Longrightarrow> node_at w = node_at w'"
  by (rule ext) (simp add: node_at_def)

lemma mkdirs_out: "out (snd (mkdirs sofar cs w)) = out w"
  by (induction cs arbitrary: sofar w) (auto split: option.splits node.splits)

lemma mkdirs_long:
  "length (sofar @ cs) < length q \<Longrightarrow> fs (snd (mkdirs sofar cs w)) q = fs w q"
proof (induction cs arbitrary: sofar w)
  case Nil
  then show ?case by simp
next
  case (Cons c cs)
  then have l: "length ((sofar @ [c]) @ cs) < length q" by simp
  have ne: "q \<noteq> sofar @ [c]" using Cons.prems by auto
  show ?case
    using Cons.IH [OF l] ne by (auto split: option.splits node.splits)
qed

lemma mkdirs_dir:
  assumes "fst (mkdirs sofar cs w) = Inr u" and "node_at w sofar = Some Dir"
  shows "node_at (snd (mkdirs sofar cs w)) (sofar @ cs) = Some Dir"
  using assms
proof (induction cs arbitrary: sofar w)
  case Nil
  then show ?case by simp
next
  case (Cons c cs)
  show ?case
  proof (cases "node_at w (sofar @ [c])")
    case None
    let ?w = "w\<lparr>fs := (fs w)(sofar @ [c] \<mapsto> Dir)\<rparr>"
    have d: "node_at ?w (sofar @ [c]) = Some Dir" by (simp add: node_at_def)
    from Cons.prems(1) None have "fst (mkdirs (sofar @ [c]) cs ?w) = Inr u" by simp
    from Cons.IH [OF this d] show ?thesis using None by simp
  next
    case (Some n)
    show ?thesis
    proof (cases n)
      case Dir
      with Some Cons.prems(1) have "fst (mkdirs (sofar @ [c]) cs w) = Inr u" by simp
      from Cons.IH [OF this] Some Dir show ?thesis by simp
    next
      case (File bs)
      with Some Cons.prems(1) show ?thesis by simp
    qed
  qed
qed

lemma mkdirs_succeeds:
  assumes "\<forall>i\<in>{1..length cs}. \<forall>bs. node_at w (sofar @ take i cs) \<noteq> Some (File bs)"
  shows "fst (mkdirs sofar cs w) = Inr ()"
  using assms
proof (induction cs arbitrary: sofar w)
  case Nil
  then show ?case by simp
next
  case (Cons c cs)
  have first: "\<forall>bs. node_at w (sofar @ [c]) \<noteq> Some (File bs)"
    using Cons.prems [rule_format, of 1] by simp
  have later: "\<forall>bs. node_at w ((sofar @ [c]) @ take i cs) \<noteq> Some (File bs)"
    if "i \<in> {1..length cs}" for i
    using Cons.prems [rule_format, of "Suc i"] that by simp
  show ?case
  proof (cases "node_at w (sofar @ [c])")
    case None
    let ?w = "w\<lparr>fs := (fs w)(sofar @ [c] \<mapsto> Dir)\<rparr>"
    have "\<forall>i\<in>{1..length cs}. \<forall>bs. node_at ?w ((sofar @ [c]) @ take i cs) \<noteq> Some (File bs)"
    proof (intro ballI allI)
      fix i bs assume i: "i \<in> {1..length cs}"
      then have "take i cs \<noteq> []" by auto
      then have "node_at ?w ((sofar @ [c]) @ take i cs) = node_at w ((sofar @ [c]) @ take i cs)"
        by (simp add: node_at_def)
      with later [OF i] show "node_at ?w ((sofar @ [c]) @ take i cs) \<noteq> Some (File bs)" by simp
    qed
    from Cons.IH [OF this] None show ?thesis by simp
  next
    case (Some n)
    with first obtain d: "n = Dir" by (cases n) auto
    have "\<forall>i\<in>{1..length cs}. \<forall>bs. node_at w ((sofar @ [c]) @ take i cs) \<noteq> Some (File bs)"
      using later by blast
    from Cons.IH [OF this] Some d show ?thesis by simp
  qed
qed

lemma no_file_on_way_iff:
  "no_file_on_way w q \<longleftrightarrow> (\<forall>i\<in>{1..length q}. \<forall>bs. node_at w (take i q) \<noteq> Some (File bs))"
  by (auto simp: no_file_on_way_def list_all_iff split: option.splits node.splits)

lemma os_makedirs_ready:
  assumes "out_ready w p"
  shows "fst (os_makedirs p w) = Inr ()"
    and "pack_ready (snd (os_makedirs p w)) p"
    and "out (snd (os_makedirs p w)) = out w"
proof -
  from assms have ne: "p \<noteq> []" and way: "no_file_on_way w (resolve p)"
    and bin: "node_at w (bin_file p) \<noteq> Some Dir"
    by (simp_all add: out_ready_def)
  from way have "\<forall>i\<in>{1..length (resolve p)}. \<forall>bs. node_at w ([] @ take i (resolve p)) \<noteq> Some (File bs)"
    by (simp add: no_file_on_way_iff)
  from mkdirs_succeeds [OF this] show ok: "fst (os_makedirs p w) = Inr ()"
    using ne by (simp add: os_makedirs_def)
  show "out (snd (os_makedirs p w)) = out w"
    using ne by (simp add: os_makedirs_def mkdirs_out)
  have root: "node_at w [] = Some Dir" by (simp add: node_at_def)
  have "fst (mkdirs [] (resolve p) w) = Inr ()" using ok ne by (simp add: os_makedirs_def)
  from mkdirs_dir [OF this root] have d: "node_at (snd (os_makedirs p w)) (resolve p) = Some Dir"
    using ne by (simp add: os_makedirs_def)
  have "fs (snd (mkdirs [] (resolve p) w)) (bin_file p) = fs w (bin_file p)"
    by (rule mkdirs_long) (simp add: bin_file_def)
  then have "node_at (snd (os_makedirs p w)) (bin_file p) = node_at w (bin_file p)"
    using ne by (simp add: os_makedirs_def node_at_def)
  with bin d show "pack_ready (snd (os_makedirs p w)) p"
    by (simp add: pack_ready_def)
qed

lemma out_ready_fs: "fs w = fs w' \<Longrightarrow> out_ready w p = out_ready w' p"
  using node_at_fs [of w w'] by (simp add: out_ready_def no_file_on_way_def)

section \<open>Steps that only print\<close>

lemma banners_append: "banners (xs @ ys) = banners xs @ banners ys"
  by (simp add: banners_def)

lemma logs_only_return: "logs_only (\<lambda>w. (r, w))"
  unfolding logs_only_def by (rule exI [of _ r], rule exI [of _ "[]"]) (simp add: banners_def)

lemma logs_only_print: "banner m = [] \<Longrightarrow> logs_only (\<lambda>w. (r, print m w))"
  unfolding logs_only_def by (rule exI [of _ r], rule exI [of _ "[m]"]) (simp add: banners_def print_def)

lemma logs_only_bind:
  assumes "logs_only F" and "\<And>r. logs_only (\<lambda>w. G r w)"
  shows "logs_only (\<lambda>w. case F w of (r, w1) \<Rightarrow> G r w1)"
proof -
  from assms(1) obtain r ms where F: "banners ms = []" "\<And>w. F w = (r, w\<lparr>out := out w @ ms\<rparr>)"
    unfolding logs_only_def by blast
  from assms(2) [of r] obtain r' ms' where
    G: "banners ms' = []" "\<And>w. G r w = (r', w\<lparr>out := out w @ ms'\<rparr>)"
    unfolding logs_only_def by blast
  show ?thesis
    unfolding logs_only_def
    by (rule exI [of _ r'], rule exI [of _ "ms @ ms'"]) (simp add: F G banners_append)
qed

lemma logs_only_after:
  assumes "logs_only F" and "banners ms = []"
  shows "logs_only (\<lambda>w. F (w\<lparr>out := out w @ ms\<rparr>))"
proof -
  from assms(1) obtain r ms' where F: "banners ms' = []" "\<And>w. F w = (r, w\<lparr>out := out w @ ms'\<rparr>)"
    unfolding logs_only_def by blast
  show ?thesis
    unfolding logs_only_def
    by (rule exI [of _ r], rule exI [of _ "ms @ ms'"]) (simp add: F assms(2) banners_append)
qed

lemma logs_only_sum:
  assumes "\<And>e. logs_only (\<lambda>w. F e w)" and "\<And>v. logs_only (\<lambda>w. G v w)"
  shows "logs_only (\<lambda>w. case x of Inl e \<Rightarrow> F e w | Inr v \<Rightarrow> G v w)"
  using assms by (cases x) simp_all

lemma logs_only_bool:
  assumes "logs_only (\<lambda>w. F w)" and "logs_only (\<lambda>w. G w)"
  shows "logs_only (\<lambda>w. case b of True \<Rightarrow> F w | False \<Rightarrow> G w)"
  using assms by (cases b) simp_all

lemma logs_only_fs: "logs_only F \<Longrightarrow> fs (snd (F w)) = fs w"
  unfolding logs_only_def by auto

lemma logs_only_fst: "logs_only F \<Longrightarrow> fst (F w) = fst (F w')"
  unfolding logs_only_def by auto


lemma extract_var_logs: "logs_only (extract_var vg idx key weights)"
  unfolding extract_var_def [abs_def]
  by (intro logs_only_sum logs_only_bool logs_only_return logs_only_print) simp

lemma extract_layer_logs: "logs_only (extract_layer lr l weights)"
  unfolding extract_layer_def [abs_def]
  by (intro logs_only_sum logs_only_bool logs_only_return logs_only_bind extract_var_logs)

lemma extract_layers_logs: "logs_only (extract_layers lr ls weights)"
proof (induction ls arbitrary: weights)
  case Nil
  show ?case using logs_only_return [of "Inr weights"] by (simp add: extract_layers.simps [abs_def])
next
  case (Cons l ls)
  have "extract_layers lr (l # ls) weights =
      (\<lambda>w. case extract_layer lr l weights w of
              (r, w1) \<Rightarrow> (case r of Inl e \<Rightarrow> (Inl e, w1) | Inr ws \<Rightarrow> extract_layers lr ls ws w1))"
    by (rule ext) (simp split: prod.splits sum.splits)
  then show ?case
    using Cons.IH
    by (auto intro!: logs_only_bind logs_only_sum logs_only_return extract_layer_logs)
qed

lemma try_block_logs: "logs_only (try_block f)"
  unfolding try_block_def [abs_def]
  by (intro logs_only_sum logs_only_return extract_layers_logs)

lemma banners_visit:
  "banners (visit_obj nm (obj :: 'e h5obj)) = []"
  "banners (visit_kids prefix (kids :: (string \<times> 'e h5obj) list)) = []"
  by (induction nm obj and prefix kids rule: visit_obj_visit_kids.induct)
    (simp_all add: banners_def)

lemma visititems_eq: "\<exists>ms. banners ms = [] \<and> (\<forall>w. visititems f w = w\<lparr>out := out w @ ms\<rparr>)"
proof (cases f)
  case (Group kids)
  show ?thesis
    by (rule exI [of _ "visit_kids [] kids"]) (simp add: Group banners_visit)
next
  case (Dataset d)
  show ?thesis
    by (rule exI [of _ "[]"]) (simp add: Dataset banners_def)
qed

lemma extract_opened_logs:
  "logs_only (\<lambda>w. case try_block f (visititems f (print (StructureHeader p) w)) of
                    (Inl e, w1) \<Rightarrow> (Inr None, print (ErrorExtracting e) w1)
                  | (Inr weights, w1) \<Rightarrow> (Inr (Some weights), w1))"
proof -
  obtain ms where ms: "banners ms = []" "\<And>w. visititems f w = w\<lparr>out := out w @ ms\<rparr>"
    using visititems_eq [of f] by blast
  have pre: "visititems f (print (StructureHeader p) w) = w\<lparr>out := out w @ (StructureHeader p # ms)\<rparr>" for w
    by (simp add: ms(2) print_def)
  have b: "banners (StructureHeader p # ms) = []"
    using ms(1) by (simp add: banners_def)
  have t: "logs_only (\<lambda>w. try_block f (w\<lparr>out := out w @ (StructureHeader p # ms)\<rparr>))"
    by (rule logs_only_after [OF try_block_logs b])
  have L: "logs_only (\<lambda>w. case try_block f (w\<lparr>out := out w @ (StructureHeader p # ms)\<rparr>) of
                    (r, w1) \<Rightarrow> (case r of Inl e \<Rightarrow> (Inr None, print (ErrorExtracting e) w1)
                                 | Inr weights \<Rightarrow> (Inr (Some weights), w1)))"
    by (intro logs_only_bind t logs_only_sum logs_only_return logs_only_print) simp
  have E: "(\<lambda>w. case try_block f (visititems f (print (StructureHeader p) w)) of
                    (Inl e, w1) \<Rightarrow> (Inr None, print (ErrorExtracting e) w1)
                  | (Inr weights, w1) \<Rightarrow> (Inr (Some weights), w1)) =
      (\<lambda>w. case try_block f (w\<lparr>out := out w @ (StructureHeader p # ms)\<rparr>) of
                    (r, w1) \<Rightarrow> (case r of Inl e \<Rightarrow> (Inr None, print (ErrorExtracting e) w1)
                                 | Inr weights \<Rightarrow> (Inr (Some weights), w1)))"
    by (rule ext) (simp add: pre split: prod.splits sum.splits)
  show ?thesis unfolding E by (rule L)
qed

lemma extract_h5_weights_cases:
  "extract_h5_weights decode p w =
     (case h5py_File decode p w of
        Inl e \<Rightarrow> (Inl e, w)
      | Inr f \<Rightarrow>
          (\<lambda>w. case try_block f (visititems f (print (StructureHeader p) w)) of
                    (Inl e, w1) \<Rightarrow> (Inr None, print (ErrorExtracting e) w1)
                  | (Inr weights, w1) \<Rightarrow> (Inr (Some weights), w1)) w)"
  by (simp add: extract_h5_weights_def)

lemma extract_h5_weights_fs: "fs (snd (extract_h5_weights decode p w)) = fs w"
  unfolding extract_h5_weights_cases
  using logs_only_fs [OF extract_opened_logs]
  by (cases "h5py_File decode p w") simp_all


lemma h5py_File_fs: "fs w = fs w' \<Longrightarrow> h5py_File decode p w = h5py_File decode p w'"
  using node_at_fs [of w w'] by (simp add: h5py_File_def)

lemma extract_h5_weights_fst:
  assumes "fs w = fs w'"
  shows "fst (extract_h5_weights decode p w) = fst (extract_h5_weights decode p w')"
  unfolding extract_h5_weights_cases h5py_File_fs [OF assms]
  using logs_only_fst [OF extract_opened_logs, of _ _ w w']
  by (cases "h5py_File decode p w'") simp_all

section \<open>What the Packer prints\<close>





lemma create_tfjs_weights_none:
  assumes "pack_ready w output_path"
    and "list_all (\<lambda>n. weights n = None) weight_order"
  shows "create_tfjs_weights cast weights output_path w =
           (Inr [],
            print (TotalSize 0)
              (print (CreatedBin (os_path_join output_path ''group1-shard1of1.bin''))
                 (w\<lparr>fs := (fs w)(bin_file output_path \<mapsto> File [])\<rparr>)))"
proof -
  from assms(2) have "\<forall>n\<in>set weight_order. weights n = None"
    by (simp add: list_all_iff)
  then show ?thesis
    by (simp add: create_tfjs_weights_def open_wb_ready [OF assms(1)] write_weights_none)
qed


section \<open>One pass through the driver's loop\<close>

lemma print_fs: "fs (print m w) = fs w"
  by (simp add: print_def)

lemma os_path_exists_fs: "fs w = fs w' \<Longrightarrow> os_path_exists w p = os_path_exists w' p"
  using node_at_fs [of w w'] by (simp add: os_path_exists_def)


lemma convert_model_failed:
  assumes "os_path_exists w p" and "fst (extract_h5_weights decode p w) = Inr None"
  shows "convert_model decode cast base (n, p) w =
           (Inr (), print (FailedToExtract p)
                      (snd (extract_h5_weights decode p (print (Converting (upper n)) w))))"
proof -
  let ?w0 = "print (Converting (upper n)) w"
  have e: "os_path_exists ?w0 p"
    using assms(1) os_path_exists_fs [OF print_fs, of "Converting (upper n)" w p] by simp
  have "fst (extract_h5_weights decode p ?w0) = Inr None"
    using assms(2) extract_h5_weights_fst [OF print_fs, of decode p "Converting (upper n)" w] by simp
  then obtain w1 where "extract_h5_weights decode p ?w0 = (Inr None, w1)"
    by (cases "extract_h5_weights decode p ?w0") simp
  then show ?thesis using e by (simp add: convert_model_def)
qed

lemma convert_model_extracted:
  assumes "os_path_exists w p" and "fst (extract_h5_weights decode p w) = Inr (Some weights)"
  shows "convert_model decode cast base (n, p) w =
           (case os_makedirs (os_path_join base n)
                   (snd (extract_h5_weights decode p (print (Converting (upper n)) w))) of
              (Inl e, w2) \<Rightarrow> (Inl e, w2)
            | (Inr u, w2) \<Rightarrow>
                (case create_tfjs_weights cast weights (os_path_join base n) w2 of
                   (Inl e, w3) \<Rightarrow> (Inl e, w3)
                 | (Inr weight_specs, w3) \<Rightarrow>
                     (Inr (), print (SavedTo (os_path_join base n)) (print (Success n) w3))))"
proof -
  let ?w0 = "print (Converting (upper n)) w"
  have e: "os_path_exists ?w0 p"
    using assms(1) os_path_exists_fs [OF print_fs, of "Converting (upper n)" w p] by simp
  have "fst (extract_h5_weights decode p ?w0) = Inr (Some weights)"
    using assms(2) extract_h5_weights_fst [OF print_fs, of decode p "Converting (upper n)" w] by simp
  then obtain w1 where "extract_h5_weights decode p ?w0 = (Inr (Some weights), w1)"
    by (cases "extract_h5_weights decode p ?w0") simp
  then show ?thesis using e by (simp add: convert_model_def Let_def)
qed

lemma convert_model_raised:
  assumes "os_path_exists w p" and "fst (extract_h5_weights decode p w) = Inl e"
  shows "fst (convert_model decode cast base (n, p) w) = Inl e"
proof -
  let ?w0 = "print (Converting (upper n)) w"
  have x: "os_path_exists ?w0 p"
    using assms(1) os_path_exists_fs [OF print_fs, of "Converting (upper n)" w p] by simp
  have "fst (extract_h5_weights decode p ?w0) = Inl e"
    using assms(2) extract_h5_weights_fst [OF print_fs, of decode p "Converting (upper n)" w] by simp
  then obtain w1 where "extract_h5_weights decode p ?w0 = (Inl e, w1)"
    by (cases "extract_h5_weights decode p ?w0") simp
  then show ?thesis using x by (simp add: convert_model_def)
qed

text \<open>A job whose extraction succeeds and whose output place is ready: the directory is
  made, the Packer runs in it, and the two closing lines of the driver are printed.\<close>

lemma convert_model_converted:
  assumes "os_path_exists w p" and "fst (extract_h5_weights decode p w) = Inr (Some weights)"
    and "out_ready w (os_path_join base n)" and "all_castable cast weights"
  defines "w2 \<equiv> snd (os_makedirs (os_path_join base n)
                       (snd (extract_h5_weights decode p (print (Converting (upper n)) w))))"
  shows "convert_model decode cast base (n, p) w =
           (Inr (), print (SavedTo (os_path_join base n))
                      (print (Success n)
                         (snd (create_tfjs_weights cast weights (os_path_join base n) w2))))"
    and "pack_ready w2 (os_path_join base n)"
proof -
  let ?w0 = "print (Converting (upper n)) w"
  let ?w1 = "snd (extract_h5_weights decode p ?w0)"
  let ?o = "os_path_join base n"
  have "fs ?w1 = fs w" by (simp add: extract_h5_weights_fs print_fs)
  with assms(3) have r: "out_ready ?w1 ?o" using out_ready_fs by blast
  note M = os_makedirs_ready [OF r]
  from M(1) have m: "os_makedirs ?o ?w1 = (Inr (), w2)"
    unfolding w2_def by (cases "os_makedirs ?o ?w1") simp
  show pr: "pack_ready w2 ?o" using M(2) by (simp add: w2_def)
  from create_tfjs_weights_ok(1) [OF pr assms(4)]
  obtain specs w3 where c: "create_tfjs_weights cast weights ?o w2 = (Inr specs, w3)"
    by (cases "create_tfjs_weights cast weights ?o w2") simp
  show "convert_model decode cast base (n, p) w =
           (Inr (), print (SavedTo ?o) (print (Success n) (snd (create_tfjs_weights cast weights ?o w2))))"
    unfolding convert_model_extracted [OF assms(1,2)] by (simp add: m c)
qed



section \<open>The driver's loop\<close>






lemma all_none_castable:
  assumes "list_all (\<lambda>n. weights n = None) weight_order"
  shows "all_castable cast weights" and "present weights weight_order = []"
  using assms by (auto simp: all_castable_def present_def list_all_iff)

lemma convert_model_result:
  assumes "os_path_exists w p" and "fst (extract_h5_weights decode p w) = Inr (Some weights)"
    and "out_ready w (os_path_join base n)" and "all_castable cast weights"
  shows "fst (convert_model decode cast base (n, p) w) = Inr ()"
    and "node_at (snd (convert_model decode cast base (n, p) w)) (resolve (os_path_join base n)) =
           Some Dir"
    and "node_at (snd (convert_model decode cast base (n, p) w)) (bin_file (os_path_join base n)) =
           Some (File (concat (map (\<lambda>n. tobytes (tensor cast weights n))
                                 (present weights weight_order))))"
proof -
  let ?o = "os_path_join base n"
  let ?w2 = "snd (os_makedirs ?o (snd (extract_h5_weights decode p (print (Converting (upper n)) w))))"
  let ?w3 = "snd (create_tfjs_weights cast weights ?o ?w2)"
  note C = convert_model_converted [OF assms]
  show "fst (convert_model decode cast base (n, p) w) = Inr ()"
    by (simp add: C(1))
  have W: "fs (snd (convert_model decode cast base (n, p) w)) = fs ?w3"
    by (simp add: C(1) print_fs)
  note F = create_tfjs_weights_ok(2) [OF C(2) assms(4)]
  have "node_at ?w3 (resolve ?o) = node_at ?w2 (resolve ?o)"
    by (cases "resolve ?o = []") (simp_all add: node_at_def F bin_file_nonempty)
  with C(2) have "node_at ?w3 (resolve ?o) = Some Dir"
    by (simp add: pack_ready_def)
  then show "node_at (snd (convert_model decode cast base (n, p) w)) (resolve ?o) = Some Dir"
    using node_at_fs [OF W] by simp
  have "node_at ?w3 (bin_file ?o) =
      Some (File (concat (map (\<lambda>n. tobytes (tensor cast weights n)) (present weights weight_order))))"
    by (simp add: node_at_bin F)
  then show "node_at (snd (convert_model decode cast base (n, p) w)) (bin_file ?o) =
           Some (File (concat (map (\<lambda>n. tobytes (tensor cast weights n))
                                 (present weights weight_order))))"
    using node_at_fs [OF W] by simp
qed

lemma convert_model_empty:
  assumes "os_path_exists w p" and "fst (extract_h5_weights decode p w) = Inr (Some weights)"
    and "list_all (\<lambda>n. weights n = None) weight_order"
    and "out_ready w (os_path_join base n)"
  shows "fst (convert_model decode cast base (n, p) w) = Inr ()"
    and "node_at (snd (convert_model decode cast base (n, p) w)) (resolve (os_path_join base n)) =
           Some Dir"
    and "node_at (snd (convert_model decode cast base (n, p) w)) (bin_file (os_path_join base n)) =
           Some (File [])"
    and "\<exists>ms. out (snd (convert_model decode cast base (n, p) w)) =
           ms @ [CreatedBin (os_path_join (os_path_join base n) ''group1-shard1of1.bin''),
                 TotalSize 0, Success n, SavedTo (os_path_join base n)]"
proof -
  note A = all_none_castable(1) [OF assms(3), of cast] all_none_castable(2) [OF assms(3)]
  note R = convert_model_result [OF assms(1,2,4) A(1)]
  show "fst (convert_model decode cast base (n, p) w) = Inr ()" by (rule R(1))
  show "node_at (snd (convert_model decode cast base (n, p) w)) (resolve (os_path_join base n)) =
           Some Dir" by (rule R(2))
  show "node_at (snd (convert_model decode cast base (n, p) w)) (bin_file (os_path_join base n)) =
           Some (File [])"
    using R(3) by (simp add: A(2))
  note C = convert_model_converted [OF assms(1,2,4) A(1)]
  show "\<exists>ms. out (snd (convert_model decode cast base (n, p) w)) =
           ms @ [CreatedBin (os_path_join (os_path_join base n) ''group1-shard1of1.bin''),
                 TotalSize 0, Success n, SavedTo (os_path_join base n)]"
    unfolding C(1) create_tfjs_weights_none [OF C(2) assms(3)]
    by (simp add: print_def)
qed





section \<open>Facts about the sample data\<close>

lemma sample_worlds_ready: "pack_ready used_world ''/out''" "pack_ready fresh_world ''/out''"
  by (simp_all add: pack_ready_def used_world_def fresh_world_def node_at_def resolve_def bin_file_def)

lemma six_tensors_castable: "all_castable Some six_tensors"
  by (simp add: all_castable_def weight_order_def six_tensors_def castable_def)

lemma six_tensors_present:
  "present six_tensors weight_order =
     [''dense/kernel'', ''dense/bias'', ''dense_1/kernel'', ''dense_1/bias'',
      ''dense_3/kernel'', ''dense_3/bias'']"
  by (simp add: present_def weight_order_def six_tensors_def)

lemma two_tensors_ok: "all_castable Some two_tensors" "all_wf two_tensors"
  by (simp_all add: all_castable_def all_wf_def weight_order_def two_tensors_def castable_def
      wf_array_def arr_size_def)

lemma two_tensors_present: "present two_tensors weight_order = [''dense/kernel'', ''dense/bias'']"
  by (simp add: present_def weight_order_def two_tensors_def)

lemma input_world_nodes:
  "node_at input_world (resolve ''/in/full.h5'') = Some (File [137, 72, 68, 70])"
  "node_at input_world (resolve ''/in/empty.h5'') = Some (File [137, 72, 68, 70, 0])"
  "node_at input_world (resolve ''/in/nolayers.h5'') = Some (File [137, 72, 68, 70, 1])"
  "node_at input_world (resolve ''/in/broken.h5'') = Some (File [0, 1, 2])"
  "node_at input_world (resolve ''/in/missing.h5'') = None"
  by (simp_all add: node_at_def resolve_def input_world_def)

lemma sample_extractions:
  "fst (extract_h5_weights sample_decode ''/in/full.h5'' input_world) = Inr (Some sample_weights)"
  "fst (extract_h5_weights sample_decode ''/in/empty.h5'' input_world) = Inr (Some Map.empty)"
  "fst (extract_h5_weights sample_decode ''/in/nolayers.h5'' input_world) = Inr None"
  "fst (extract_h5_weights sample_decode ''/in/broken.h5'' input_world) = Inl OSError"
  by (simp_all add: extract_h5_weights_def h5py_File_def input_world_nodes sample_decode_def
      try_block_def sample_container_def empty_container_def sample_layers_def layer_names_def
      extract_layer_def extract_var_def sample_weights_def split_beta)

lemma sample_exists:
  "os_path_exists input_world ''/in/full.h5''"
  "os_path_exists input_world ''/in/empty.h5''"
  "os_path_exists input_world ''/in/nolayers.h5''"
  "os_path_exists input_world ''/in/broken.h5''"
  "\<not> os_path_exists input_world ''/in/missing.h5''"
  by (simp_all add: os_path_exists_def input_world_nodes)

lemma sample_out_ready: "out_ready input_world (os_path_join ''/out'' ''ddpg'')"
  by (simp add: out_ready_def os_path_join_def no_file_on_way_def resolve_def bin_file_def
      node_at_def input_world_def)








lemma empty_weights_none: "list_all (\<lambda>n. (Map.empty :: float32 weights) n = None) weight_order"
  by (simp add: weight_order_def)

lemma ddpg_paths:
  "os_path_join ''/out'' ''ddpg'' = ''/out/ddpg''"
  "resolve ''/out/ddpg'' = [''out'', ''ddpg'']"
  "bin_file ''/out/ddpg'' = [''out'', ''ddpg'', ''group1-shard1of1.bin'']"
  by (simp_all add: os_path_join_def resolve_def bin_file_def)



lemma eight_tensors_castable: "all_castable Some eight_tensors"
  by (simp add: all_castable_def weight_order_def eight_tensors_def castable_def)

section \<open>Claims about the Extractor\<close>

lemma extractor_keys_by_names:
  assumes "h5py_File decode p w = Inr f"
    and "h5_lookup f [''layers''] = Some (Group ls)"
  shows "(fst (extract_h5_weights decode p w) = Inr (Some weights) \<longrightarrow>
            (\<forall>l\<in>set layer_names.
               (weights (l @ ''/kernel'') \<noteq> None \<longleftrightarrow>
                  h5_lookup f [''layers'', l, ''vars'', ''0''] \<noteq> None)
             \<and> (weights (l @ ''/bias'') \<noteq> None \<longleftrightarrow>
                  h5_lookup f [''layers'', l, ''vars'', ''1''] \<noteq> None))
          \<and> dom weights \<subseteq>
              (\<lambda>l. l @ ''/kernel'') ` set layer_names \<union> (\<lambda>l. l @ ''/bias'') ` set layer_names)
       \<and> (list_all (layer_as_expected (Group ls)) layer_names \<longrightarrow>
            (\<exists>weights. fst (extract_h5_weights decode p w) = Inr (Some weights)))"
proof -
  from assms(1) obtain kids where f: "f = Group kids"
    using h5py_File_Group by blast
  let ?w = "visititems f (print (StructureHeader p) w)"
  note T = try_block_layers [OF assms(2) [unfolded f], folded f]
  note E = extract_h5_weights_opened [OF assms(1), unfolded T(1)]
  have keys: "(\<forall>l\<in>set layer_names.
               (weights (l @ ''/kernel'') \<noteq> None \<longleftrightarrow>
                  h5_lookup f [''layers'', l, ''vars'', ''0''] \<noteq> None)
             \<and> (weights (l @ ''/bias'') \<noteq> None \<longleftrightarrow>
                  h5_lookup f [''layers'', l, ''vars'', ''1''] \<noteq> None))
          \<and> dom weights \<subseteq>
              (\<lambda>l. l @ ''/kernel'') ` set layer_names \<union> (\<lambda>l. l @ ''/bias'') ` set layer_names"
    if "fst (extract_h5_weights decode p w) = Inr (Some weights)"
  proof -
    obtain x w1 where x: "extract_layers (Group ls) layer_names Map.empty ?w = (x, w1)"
      by (cases "extract_layers (Group ls) layer_names Map.empty ?w")
    with that E have "x = Inr weights" by (cases x) simp_all
    with x have r: "extract_layers (Group ls) layer_names Map.empty ?w = (Inr weights, w1)" by simp
    note K = extract_layers_keys [OF r]
    have a: "weights (l @ ''/kernel'') \<noteq> None \<longleftrightarrow>
               h5_lookup f [''layers'', l, ''vars'', ''0''] \<noteq> None" if "l \<in> set layer_names" for l
      unfolding K T(2) using that by (auto simp: kernel_bias_keys)
    have b: "weights (l @ ''/bias'') \<noteq> None \<longleftrightarrow>
               h5_lookup f [''layers'', l, ''vars'', ''1''] \<noteq> None" if "l \<in> set layer_names" for l
      unfolding K T(2) using that by (auto simp: kernel_bias_keys)
    have c: "dom weights \<subseteq>
              (\<lambda>l. l @ ''/kernel'') ` set layer_names \<union> (\<lambda>l. l @ ''/bias'') ` set layer_names"
    proof
      fix k assume "k \<in> dom weights"
      then have "weights k \<noteq> None" by auto
      then show "k \<in> (\<lambda>l. l @ ''/kernel'') ` set layer_names \<union> (\<lambda>l. l @ ''/bias'') ` set layer_names"
        unfolding K by auto
    qed
    from a b c show ?thesis by blast
  qed
  have ok: "\<exists>weights. fst (extract_h5_weights decode p w) = Inr (Some weights)"
    if "list_all (layer_as_expected (Group ls)) layer_names"
  proof -
    from that have "\<forall>l\<in>set layer_names. layer_as_expected (Group ls) l"
      by (simp add: list_all_iff)
    from extract_layers_ok [OF this, of Map.empty ?w] obtain weights1 w1 where
      "extract_layers (Group ls) layer_names Map.empty ?w = (Inr weights1, w1)" by blast
    then show ?thesis using E by simp
  qed
  from keys ok show ?thesis by blast
qed

text \<open>
  Claim C8. For a container that opens and has the top-level group \<^verbatim>\<open>layers\<close>: a
  WeightSet the Extractor returns has the key \<^verbatim>\<open><layer>/kernel\<close> exactly when the node
  \<^verbatim>\<open>layers/<layer>/vars/0\<close> is present and the key \<^verbatim>\<open><layer>/bias\<close> exactly when
  \<^verbatim>\<open>layers/<layer>/vars/1\<close> is, for each of the four layer names \<^verbatim>\<open>dense\<close>,
  \<^verbatim>\<open>dense_1\<close>, \<^verbatim>\<open>dense_2\<close>, \<^verbatim>\<open>dense_3\<close>, and it has no key beside these eight.
  Missing layers, missing \<^verbatim>\<open>vars\<close> groups and missing indices are no error: when the
  nodes of these four layers that are present are groups and readable datasets as
  expected, the Extractor returns a WeightSet.
\<close>

theorem extractor_keys:
  assumes "h5py_File decode p w = Inr f"
    and "h5_lookup f [''layers''] = Some (Group ls)"
  shows "(fst (extract_h5_weights decode p w) = Inr (Some weights) \<longrightarrow>
            (\<forall>l\<in>set [''dense'', ''dense_1'', ''dense_2'', ''dense_3''].
               (weights (l @ ''/kernel'') \<noteq> None \<longleftrightarrow>
                  h5_lookup f [''layers'', l, ''vars'', ''0''] \<noteq> None)
             \<and> (weights (l @ ''/bias'') \<noteq> None \<longleftrightarrow>
                  h5_lookup f [''layers'', l, ''vars'', ''1''] \<noteq> None))
          \<and> dom weights \<subseteq>
              {''dense/kernel'', ''dense/bias'', ''dense_1/kernel'', ''dense_1/bias'',
               ''dense_2/kernel'', ''dense_2/bias'', ''dense_3/kernel'', ''dense_3/bias''})
       \<and> (list_all (layer_as_expected (Group ls)) [''dense'', ''dense_1'', ''dense_2'', ''dense_3''] \<longrightarrow>
            (\<exists>weights. fst (extract_h5_weights decode p w) = Inr (Some weights)))"
proof -
  have n: "layer_names = [''dense'', ''dense_1'', ''dense_2'', ''dense_3'']"
    by (simp add: layer_names_def)
  have k: "(\<lambda>l. l @ ''/kernel'') ` set [''dense'', ''dense_1'', ''dense_2'', ''dense_3'']
         \<union> (\<lambda>l. l @ ''/bias'') ` set [''dense'', ''dense_1'', ''dense_2'', ''dense_3''] =
      {''dense/kernel'', ''dense/bias'', ''dense_1/kernel'', ''dense_1/bias'',
       ''dense_2/kernel'', ''dense_2/bias'', ''dense_3/kernel'', ''dense_3/bias''}"
    by auto
  show ?thesis
    using extractor_keys_by_names [OF assms, of weights] unfolding n k .
qed

theorem extractor_keys_witness:
  "h5py_File four_decode ''/in/four.h5'' four_world = Inr (Group four_container)
   \<and> h5_lookup (Group four_container) [''layers''] = Some (Group four_layers)
   \<and> fst (extract_h5_weights four_decode ''/in/four.h5'' four_world) = Inr (Some four_weights)
   \<and> list_all (layer_as_expected (Group four_layers)) [''dense'', ''dense_1'', ''dense_2'', ''dense_3'']
   \<and> h5py_File sample_decode ''/in/full.h5'' input_world = Inr (Group sample_container)
   \<and> h5_lookup (Group sample_container) [''layers''] = Some (Group sample_layers)
   \<and> fst (extract_h5_weights sample_decode ''/in/full.h5'' input_world) = Inr (Some sample_weights)
   \<and> list_all
        (\<lambda>l. (four_weights (l @ ''/kernel'') \<noteq> None \<longleftrightarrow>
                h5_lookup (Group four_container) [''layers'', l, ''vars'', ''0''] \<noteq> None)
           \<and> (four_weights (l @ ''/bias'') \<noteq> None \<longleftrightarrow>
                h5_lookup (Group four_container) [''layers'', l, ''vars'', ''1''] \<noteq> None))
        [''dense'', ''dense_1'', ''dense_2'', ''dense_3'']
   \<and> dom four_weights \<subseteq>
        {''dense/kernel'', ''dense/bias'', ''dense_1/kernel'', ''dense_1/bias'',
         ''dense_2/kernel'', ''dense_2/bias'', ''dense_3/kernel'', ''dense_3/bias''}
   \<and> (\<exists>weights. fst (extract_h5_weights four_decode ''/in/four.h5'' four_world) =
         Inr (Some weights))
   \<and> list_all
        (\<lambda>l. (sample_weights (l @ ''/kernel'') \<noteq> None \<longleftrightarrow>
                h5_lookup (Group sample_container) [''layers'', l, ''vars'', ''0''] \<noteq> None)
           \<and> (sample_weights (l @ ''/bias'') \<noteq> None \<longleftrightarrow>
                h5_lookup (Group sample_container) [''layers'', l, ''vars'', ''1''] \<noteq> None))
        [''dense'', ''dense_1'', ''dense_2'', ''dense_3'']
   \<and> dom sample_weights \<subseteq>
        {''dense/kernel'', ''dense/bias'', ''dense_1/kernel'', ''dense_1/bias'',
         ''dense_2/kernel'', ''dense_2/bias'', ''dense_3/kernel'', ''dense_3/bias''}
   \<and> four_weights ''dense_2/bias'' = Some \<lparr>arr_shape = [1], arr_elems = [5]\<rparr>
   \<and> four_weights ''dense_3/kernel'' = Some \<lparr>arr_shape = [1, 2], arr_elems = [6, 7]\<rparr>
   \<and> four_weights ''dense_2/kernel'' = None
   \<and> four_weights ''dense_4/kernel'' = None"
proof -
  have g1: "h5py_File four_decode ''/in/four.h5'' four_world = Inr (Group four_container)"
    by (simp add: h5py_File_def node_at_def resolve_def four_world_def four_decode_def)
  have g2: "h5_lookup (Group four_container) [''layers''] = Some (Group four_layers)"
    by (simp add: four_container_def)
  have g3: "fst (extract_h5_weights four_decode ''/in/four.h5'' four_world) =
      Inr (Some four_weights)"
    unfolding extract_h5_weights_opened [OF g1]
    by (simp add: try_block_def four_container_def four_layers_def layer_names_def
        extract_layer_def extract_var_def four_weights_def)
  have g4: "list_all (layer_as_expected (Group four_layers))
      [''dense'', ''dense_1'', ''dense_2'', ''dense_3'']"
    by (simp add: layer_as_expected_def four_layers_def group_if_present_def
        readable_if_present_def)
  have h1: "h5py_File sample_decode ''/in/full.h5'' input_world = Inr (Group sample_container)"
    by (simp add: h5py_File_def input_world_nodes sample_decode_def)
  have h2: "h5_lookup (Group sample_container) [''layers''] = Some (Group sample_layers)"
    by (simp add: sample_container_def)
  have h3: "fst (extract_h5_weights sample_decode ''/in/full.h5'' input_world) =
      Inr (Some sample_weights)"
    by (rule sample_extractions)
  note G = extractor_keys [OF g1 g2, of four_weights]
  note H = extractor_keys [OF h1 h2, of sample_weights]
  note ga = G [THEN conjunct1, THEN mp, OF g3]
  note gb = G [THEN conjunct2, THEN mp, OF g4]
  note ha = H [THEN conjunct1, THEN mp, OF h3]
  have ga1: "list_all
        (\<lambda>l. (four_weights (l @ ''/kernel'') \<noteq> None \<longleftrightarrow>
                h5_lookup (Group four_container) [''layers'', l, ''vars'', ''0''] \<noteq> None)
           \<and> (four_weights (l @ ''/bias'') \<noteq> None \<longleftrightarrow>
                h5_lookup (Group four_container) [''layers'', l, ''vars'', ''1''] \<noteq> None))
        [''dense'', ''dense_1'', ''dense_2'', ''dense_3'']"
    unfolding list_all_iff by (rule ga [THEN conjunct1])
  have ha1: "list_all
        (\<lambda>l. (sample_weights (l @ ''/kernel'') \<noteq> None \<longleftrightarrow>
                h5_lookup (Group sample_container) [''layers'', l, ''vars'', ''0''] \<noteq> None)
           \<and> (sample_weights (l @ ''/bias'') \<noteq> None \<longleftrightarrow>
                h5_lookup (Group sample_container) [''layers'', l, ''vars'', ''1''] \<noteq> None))
        [''dense'', ''dense_1'', ''dense_2'', ''dense_3'']"
    unfolding list_all_iff by (rule ha [THEN conjunct1])
  have v: "four_weights ''dense_2/bias'' = Some \<lparr>arr_shape = [1], arr_elems = [5]\<rparr>"
    "four_weights ''dense_3/kernel'' = Some \<lparr>arr_shape = [1, 2], arr_elems = [6, 7]\<rparr>"
    "four_weights ''dense_2/kernel'' = None"
    "four_weights ''dense_4/kernel'' = None"
    by (simp_all add: four_weights_def)
  show ?thesis
    by (intro conjI g1 g2 g3 g4 h1 h2 h3 ga1 ga [THEN conjunct2] gb ha1 ha [THEN conjunct2] v)
qed

text \<open>
  Claim C2. The claim is that any exception during the traversal of the container makes
  the Extractor return \<^verbatim>\<open>None\<close>. The file \<^verbatim>\<open>/in/broken.h5\<close> exists and is no
  container: opening it raises \<^verbatim>\<open>OSError\<close>, and since \<^verbatim>\<open>h5py.File\<close> stands outside
  the \<^verbatim>\<open>try\<close> block, the Extractor raises it to its caller: it returns neither
  \<^verbatim>\<open>None\<close> nor a WeightSet. An exception inside the block, as for the container without
  \<^verbatim>\<open>layers\<close>, gives \<^verbatim>\<open>None\<close>.
\<close>

theorem extractor_raises_on_unreadable_file:
  "extract_h5_weights sample_decode ''/in/broken.h5'' input_world = (Inl OSError, input_world)
   \<and> fst (extract_h5_weights sample_decode ''/in/nolayers.h5'' input_world) = Inr None"
  by (simp add: extract_h5_weights_def h5py_File_def input_world_nodes sample_decode_def
      try_block_def)

section \<open>Claims about the Packer\<close>

text \<open>
  Claim C10. Called with a WeightSet that has none of the eight slot names, in a state
  where the output directory exists, the Packer does not raise: it creates (or empties)
  \<^verbatim>\<open>group1-shard1of1.bin\<close>, which is left with 0 bytes, prints the two closing lines
  with a total of 0 bytes, and returns the empty WeightSpec list.
\<close>

theorem packer_empty_weightset:
  assumes "pack_ready w output_path"
    and "list_all (\<lambda>n. weights n = None) weight_order"
  shows "create_tfjs_weights cast weights output_path w =
           (Inr [],
            print (TotalSize 0)
              (print (CreatedBin (os_path_join output_path ''group1-shard1of1.bin''))
                 (w\<lparr>fs := (fs w)(bin_file output_path \<mapsto> File [])\<rparr>)))"
  by (rule create_tfjs_weights_none [OF assms])

theorem packer_empty_weightset_witness:
  "pack_ready used_world ''/out''
   \<and> list_all (\<lambda>n. no_weights n = None) weight_order
   \<and> fst (create_tfjs_weights Some no_weights ''/out'' used_world) = Inr []
   \<and> node_at (snd (create_tfjs_weights Some no_weights ''/out'' used_world))
        [''out'', ''group1-shard1of1.bin''] = Some (File [])"
proof -
  have h1: "pack_ready used_world ''/out''" by (rule sample_worlds_ready)
  have h2: "list_all (\<lambda>n. no_weights n = None) weight_order"
    by (simp add: no_weights_def weight_order_def)
  show ?thesis
    using h1 h2 packer_empty_weightset [OF h1 h2, of Some]
    by (simp add: node_at_def bin_file_def resolve_def print_def)
qed

text \<open>
  Claim C9. The Packer is deterministic. What it returns (the WeightSpec list, or the
  exception) and the bytes it leaves in \<^verbatim>\<open>group1-shard1of1.bin\<close> are the same from any
  two states in which the output directory exists, whatever else these states hold, an
  older binary file included; and running it a second time on the state the first run
  left gives the same result and the same bytes again.
\<close>

theorem packer_deterministic:
  assumes "pack_ready w1 output_path" and "pack_ready w2 output_path"
  shows "fst (create_tfjs_weights cast weights output_path w1) =
           fst (create_tfjs_weights cast weights output_path w2)
       \<and> node_at (snd (create_tfjs_weights cast weights output_path w1)) (bin_file output_path) =
           node_at (snd (create_tfjs_weights cast weights output_path w2)) (bin_file output_path)
       \<and> fst (create_tfjs_weights cast weights output_path
                (snd (create_tfjs_weights cast weights output_path w1))) =
           fst (create_tfjs_weights cast weights output_path w1)
       \<and> node_at (snd (create_tfjs_weights cast weights output_path
                    (snd (create_tfjs_weights cast weights output_path w1)))) (bin_file output_path) =
           node_at (snd (create_tfjs_weights cast weights output_path w1)) (bin_file output_path)"
proof -
  note A = create_tfjs_weights_indep [OF assms, of cast weights]
  note B = create_tfjs_weights_indep [OF pack_ready_after [OF assms(1)] assms(1),
      of cast weights cast weights]
  show ?thesis
    by (intro conjI) (rule A [THEN conjunct1], rule A [THEN conjunct2],
        rule B [THEN conjunct1], rule B [THEN conjunct2])
qed

theorem packer_deterministic_witness:
  "pack_ready used_world ''/out'' \<and> pack_ready fresh_world ''/out''
   \<and> (fst (create_tfjs_weights Some two_tensors ''/out'' used_world) =
           fst (create_tfjs_weights Some two_tensors ''/out'' fresh_world)
       \<and> node_at (snd (create_tfjs_weights Some two_tensors ''/out'' used_world)) (bin_file ''/out'') =
           node_at (snd (create_tfjs_weights Some two_tensors ''/out'' fresh_world)) (bin_file ''/out'')
       \<and> fst (create_tfjs_weights Some two_tensors ''/out''
                (snd (create_tfjs_weights Some two_tensors ''/out'' used_world))) =
           fst (create_tfjs_weights Some two_tensors ''/out'' used_world)
       \<and> node_at (snd (create_tfjs_weights Some two_tensors ''/out''
                    (snd (create_tfjs_weights Some two_tensors ''/out'' used_world)))) (bin_file ''/out'') =
           node_at (snd (create_tfjs_weights Some two_tensors ''/out'' used_world)) (bin_file ''/out''))"
proof -
  have h1: "pack_ready used_world ''/out''" and h2: "pack_ready fresh_world ''/out''"
    by (rule sample_worlds_ready)+
  show ?thesis
    by (intro conjI h1 h2 packer_deterministic [OF h1 h2, of Some two_tensors])
qed

text \<open>
  Claim C5. With the output directory present and every tensor castable, the Packer
  goes through the eight slots \<^verbatim>\<open>dense/kernel\<close>, \<^verbatim>\<open>dense/bias\<close>, \<^verbatim>\<open>dense_1/kernel\<close>,
  \<^verbatim>\<open>dense_1/bias\<close>, \<^verbatim>\<open>dense_2/kernel\<close>, \<^verbatim>\<open>dense_2/bias\<close>, \<^verbatim>\<open>dense_3/kernel\<close>,
  \<^verbatim>\<open>dense_3/bias\<close> in this order: the manifest names and the bytes of the file are
  those of the slots the WeightSet has, in this order, one tensor's bytes directly after
  the other's, nothing for a missing slot. A WeightSet that has all slots but those of
  \<^verbatim>\<open>dense_2\<close> gives the six other tensors.
\<close>

theorem packer_fixed_order:
  assumes "pack_ready w output_path" and "all_castable cast weights"
  shows "(\<exists>specs. fst (create_tfjs_weights cast weights output_path w) = Inr specs
            \<and> map name specs =
                present weights
                  [''dense/kernel'', ''dense/bias'', ''dense_1/kernel'', ''dense_1/bias'',
                   ''dense_2/kernel'', ''dense_2/bias'', ''dense_3/kernel'', ''dense_3/bias''])
       \<and> node_at (snd (create_tfjs_weights cast weights output_path w)) (bin_file output_path) =
           Some (File (concat (map (\<lambda>n. tobytes (tensor cast weights n))
             (present weights
                [''dense/kernel'', ''dense/bias'', ''dense_1/kernel'', ''dense_1/bias'',
                 ''dense_2/kernel'', ''dense_2/bias'', ''dense_3/kernel'', ''dense_3/bias'']))))
       \<and> (weights ''dense_2/kernel'' = None \<and> weights ''dense_2/bias'' = None
            \<and> list_all (\<lambda>n. weights n \<noteq> None)
                 [''dense/kernel'', ''dense/bias'', ''dense_1/kernel'', ''dense_1/bias'',
                  ''dense_3/kernel'', ''dense_3/bias'']
          \<longrightarrow> (\<exists>specs. fst (create_tfjs_weights cast weights output_path w) = Inr specs
                 \<and> map name specs =
                     [''dense/kernel'', ''dense/bias'', ''dense_1/kernel'', ''dense_1/bias'',
                      ''dense_3/kernel'', ''dense_3/bias''])
              \<and> node_at (snd (create_tfjs_weights cast weights output_path w))
                   (bin_file output_path) =
                  Some (File (tobytes (tensor cast weights ''dense/kernel'')
                            @ tobytes (tensor cast weights ''dense/bias'')
                            @ tobytes (tensor cast weights ''dense_1/kernel'')
                            @ tobytes (tensor cast weights ''dense_1/bias'')
                            @ tobytes (tensor cast weights ''dense_3/kernel'')
                            @ tobytes (tensor cast weights ''dense_3/bias''))))"
proof -
  have o: "weight_order =
      [''dense/kernel'', ''dense/bias'', ''dense_1/kernel'', ''dense_1/bias'',
       ''dense_2/kernel'', ''dense_2/bias'', ''dense_3/kernel'', ''dense_3/bias'']"
    by (simp add: weight_order_def)
  have 1: "\<exists>specs. fst (create_tfjs_weights cast weights output_path w) = Inr specs
            \<and> map name specs = present weights weight_order"
    using create_tfjs_weights_ok(1) [OF assms] by (simp add: names_spec_of)
  have 2: "node_at (snd (create_tfjs_weights cast weights output_path w)) (bin_file output_path) =
           Some (File (concat (map (\<lambda>n. tobytes (tensor cast weights n))
                                 (present weights weight_order))))"
    by (simp add: node_at_bin create_tfjs_weights_ok(2) [OF assms])
  have 3: "(\<exists>specs. fst (create_tfjs_weights cast weights output_path w) = Inr specs
                 \<and> map name specs =
                     [''dense/kernel'', ''dense/bias'', ''dense_1/kernel'', ''dense_1/bias'',
                      ''dense_3/kernel'', ''dense_3/bias''])
              \<and> node_at (snd (create_tfjs_weights cast weights output_path w))
                   (bin_file output_path) =
                  Some (File (tobytes (tensor cast weights ''dense/kernel'')
                            @ tobytes (tensor cast weights ''dense/bias'')
                            @ tobytes (tensor cast weights ''dense_1/kernel'')
                            @ tobytes (tensor cast weights ''dense_1/bias'')
                            @ tobytes (tensor cast weights ''dense_3/kernel'')
                            @ tobytes (tensor cast weights ''dense_3/bias'')))"
    if h: "weights ''dense_2/kernel'' = None \<and> weights ''dense_2/bias'' = None
            \<and> list_all (\<lambda>n. weights n \<noteq> None)
                 [''dense/kernel'', ''dense/bias'', ''dense_1/kernel'', ''dense_1/bias'',
                  ''dense_3/kernel'', ''dense_3/bias'']"
  proof -
    from h have p: "present weights weight_order =
        [''dense/kernel'', ''dense/bias'', ''dense_1/kernel'', ''dense_1/bias'',
         ''dense_3/kernel'', ''dense_3/bias'']"
      by (simp add: present_def weight_order_def)
    show ?thesis
      using 1 2 unfolding p by simp
  qed
  from 3 have 4: "weights ''dense_2/kernel'' = None \<and> weights ''dense_2/bias'' = None
            \<and> list_all (\<lambda>n. weights n \<noteq> None)
                 [''dense/kernel'', ''dense/bias'', ''dense_1/kernel'', ''dense_1/bias'',
                  ''dense_3/kernel'', ''dense_3/bias'']
          \<longrightarrow> (\<exists>specs. fst (create_tfjs_weights cast weights output_path w) = Inr specs
                 \<and> map name specs =
                     [''dense/kernel'', ''dense/bias'', ''dense_1/kernel'', ''dense_1/bias'',
                      ''dense_3/kernel'', ''dense_3/bias''])
              \<and> node_at (snd (create_tfjs_weights cast weights output_path w))
                   (bin_file output_path) =
                  Some (File (tobytes (tensor cast weights ''dense/kernel'')
                            @ tobytes (tensor cast weights ''dense/bias'')
                            @ tobytes (tensor cast weights ''dense_1/kernel'')
                            @ tobytes (tensor cast weights ''dense_1/bias'')
                            @ tobytes (tensor cast weights ''dense_3/kernel'')
                            @ tobytes (tensor cast weights ''dense_3/bias'')))"
    by (rule impI)
  show ?thesis
    by (rule conjI [OF 1 [unfolded o] conjI [OF 2 [unfolded o] 4]])
qed

theorem packer_fixed_order_witness:
  "pack_ready used_world ''/out'' \<and> all_castable Some six_tensors
   \<and> all_castable Some eight_tensors
   \<and> six_tensors ''dense_2/kernel'' = None \<and> six_tensors ''dense_2/bias'' = None
   \<and> list_all (\<lambda>n. six_tensors n \<noteq> None)
        [''dense/kernel'', ''dense/bias'', ''dense_1/kernel'', ''dense_1/bias'',
         ''dense_3/kernel'', ''dense_3/bias'']
   \<and> (\<exists>specs. fst (create_tfjs_weights Some six_tensors ''/out'' used_world) = Inr specs
         \<and> map name specs =
             [''dense/kernel'', ''dense/bias'', ''dense_1/kernel'', ''dense_1/bias'',
              ''dense_3/kernel'', ''dense_3/bias''])
   \<and> node_at (snd (create_tfjs_weights Some six_tensors ''/out'' used_world))
        [''out'', ''group1-shard1of1.bin''] =
        Some (File [1, 0, 0, 0, 2, 0, 0, 0, 3, 0, 0, 0, 4, 0, 0, 0, 5, 0, 0, 0, 6, 0, 0, 0])
   \<and> (\<exists>specs. fst (create_tfjs_weights Some eight_tensors ''/out'' used_world) = Inr specs
         \<and> map name specs =
             [''dense/kernel'', ''dense/bias'', ''dense_1/kernel'', ''dense_1/bias'',
              ''dense_2/kernel'', ''dense_2/bias'', ''dense_3/kernel'', ''dense_3/bias''])
   \<and> node_at (snd (create_tfjs_weights Some eight_tensors ''/out'' used_world))
        [''out'', ''group1-shard1of1.bin''] =
        Some (File [1, 0, 0, 0, 2, 0, 0, 0, 3, 0, 0, 0, 4, 0, 0, 0,
                    7, 0, 0, 0, 8, 0, 0, 0, 5, 0, 0, 0, 6, 0, 0, 0])"
proof -
  have h1: "pack_ready used_world ''/out''" by (rule sample_worlds_ready)
  have h2: "all_castable Some six_tensors" by (rule six_tensors_castable)
  have h2': "all_castable Some eight_tensors" by (rule eight_tensors_castable)
  have h3: "six_tensors ''dense_2/kernel'' = None \<and> six_tensors ''dense_2/bias'' = None
     \<and> list_all (\<lambda>n. six_tensors n \<noteq> None)
        [''dense/kernel'', ''dense/bias'', ''dense_1/kernel'', ''dense_1/bias'',
         ''dense_3/kernel'', ''dense_3/bias'']"
    by (simp add: six_tensors_def)
  have b: "bin_file ''/out'' = [''out'', ''group1-shard1of1.bin'']"
    by (simp add: bin_file_def resolve_def)
  have t: "tobytes (tensor Some six_tensors ''dense/kernel'')
         @ tobytes (tensor Some six_tensors ''dense/bias'')
         @ tobytes (tensor Some six_tensors ''dense_1/kernel'')
         @ tobytes (tensor Some six_tensors ''dense_1/bias'')
         @ tobytes (tensor Some six_tensors ''dense_3/kernel'')
         @ tobytes (tensor Some six_tensors ''dense_3/bias'') =
      [1, 0, 0, 0, 2, 0, 0, 0, 3, 0, 0, 0, 4, 0, 0, 0, 5, 0, 0, 0, 6, 0, 0, 0]"
    by (simp add: tensor_def to_float32_def tobytes_def float32_bytes_def six_tensors_def)
  have p: "present eight_tensors
         [''dense/kernel'', ''dense/bias'', ''dense_1/kernel'', ''dense_1/bias'',
          ''dense_2/kernel'', ''dense_2/bias'', ''dense_3/kernel'', ''dense_3/bias''] =
      [''dense/kernel'', ''dense/bias'', ''dense_1/kernel'', ''dense_1/bias'',
       ''dense_2/kernel'', ''dense_2/bias'', ''dense_3/kernel'', ''dense_3/bias'']"
    by (simp add: present_def eight_tensors_def)
  have t': "concat (map (\<lambda>n. tobytes (tensor Some eight_tensors n))
         [''dense/kernel'', ''dense/bias'', ''dense_1/kernel'', ''dense_1/bias'',
          ''dense_2/kernel'', ''dense_2/bias'', ''dense_3/kernel'', ''dense_3/bias'']) =
      [1, 0, 0, 0, 2, 0, 0, 0, 3, 0, 0, 0, 4, 0, 0, 0,
       7, 0, 0, 0, 8, 0, 0, 0, 5, 0, 0, 0, 6, 0, 0, 0]"
    by (simp add: tensor_def to_float32_def tobytes_def float32_bytes_def eight_tensors_def)
  note T = packer_fixed_order [OF h1 h2]
  note S = T [THEN conjunct2, THEN conjunct2, THEN mp, OF h3, unfolded t b]
  note T' = packer_fixed_order [OF h1 h2', unfolded p t' b]
  show ?thesis
    by (intro conjI h1 h2 h2' h3 [THEN conjunct1] h3 [THEN conjunct2, THEN conjunct1]
        h3 [THEN conjunct2, THEN conjunct2] S [THEN conjunct1] S [THEN conjunct2]
        T' [THEN conjunct1] T' [THEN conjunct2, THEN conjunct1])
qed

text \<open>
  Claim C6. With the output directory present and the tensors well-formed and castable,
  the file the Packer leaves has 4 bytes for every element of every tensor written, and
  the WeightSpec list has one entry for each written tensor, in the order written, with
  its name, its shape and the dtype float32. A WeightSet with exactly
  \<^verbatim>\<open>dense/kernel\<close> of shape (4,3) and \<^verbatim>\<open>dense/bias\<close> of shape (3,) gives 60 bytes and
  the two entries of these tensors.
\<close>

theorem packer_length_and_specs:
  assumes "pack_ready w output_path" and "all_castable cast weights" and "all_wf weights"
  shows "\<exists>specs bytes.
           fst (create_tfjs_weights cast weights output_path w) = Inr specs
         \<and> node_at (snd (create_tfjs_weights cast weights output_path w)) (bin_file output_path) =
             Some (File bytes)
         \<and> length bytes =
             sum_list (map (\<lambda>n. 4 * arr_size (the (weights n))) (present weights weight_order))
         \<and> specs =
             map (\<lambda>n. \<lparr>name = n, shape = arr_shape (the (weights n)), dtype = ''float32''\<rparr>)
               (present weights weight_order)
         \<and> (present weights weight_order = [''dense/kernel'', ''dense/bias'']
              \<and> arr_shape (the (weights ''dense/kernel'')) = [4, 3]
              \<and> arr_shape (the (weights ''dense/bias'')) = [3]
            \<longrightarrow> length bytes = 60
                \<and> specs = [\<lparr>name = ''dense/kernel'', shape = [4, 3], dtype = ''float32''\<rparr>,
                           \<lparr>name = ''dense/bias'', shape = [3], dtype = ''float32''\<rparr>])"
proof -
  let ?specs = "map (spec_of weights) (present weights weight_order)"
  let ?bytes = "concat (map (\<lambda>n. tobytes (tensor cast weights n)) (present weights weight_order))"
  have 1: "fst (create_tfjs_weights cast weights output_path w) = Inr ?specs"
    by (rule create_tfjs_weights_ok(1) [OF assms(1,2)])
  have 2: "node_at (snd (create_tfjs_weights cast weights output_path w)) (bin_file output_path) =
             Some (File ?bytes)"
    by (simp add: node_at_bin create_tfjs_weights_ok(2) [OF assms(1,2)])
  have 3: "length ?bytes =
             sum_list (map (\<lambda>n. 4 * arr_size (the (weights n))) (present weights weight_order))"
    by (rule length_packed [OF assms(3)])
  have 4: "?specs =
             map (\<lambda>n. \<lparr>name = n, shape = arr_shape (the (weights n)), dtype = ''float32''\<rparr>)
               (present weights weight_order)"
    by (simp add: spec_of_def)
  have 5: "length ?bytes = 60
         \<and> ?specs = [\<lparr>name = ''dense/kernel'', shape = [4, 3], dtype = ''float32''\<rparr>,
                     \<lparr>name = ''dense/bias'', shape = [3], dtype = ''float32''\<rparr>]"
    if "present weights weight_order = [''dense/kernel'', ''dense/bias'']
              \<and> arr_shape (the (weights ''dense/kernel'')) = [4, 3]
              \<and> arr_shape (the (weights ''dense/bias'')) = [3]"
  proof
    have "sum_list (map (\<lambda>n. 4 * arr_size (the (weights n))) (present weights weight_order)) = 60"
      using that by (simp add: arr_size_def)
    then show "length ?bytes = 60" by (rule trans [OF 3])
    show "?specs = [\<lparr>name = ''dense/kernel'', shape = [4, 3], dtype = ''float32''\<rparr>,
                     \<lparr>name = ''dense/bias'', shape = [3], dtype = ''float32''\<rparr>]"
      using that by (simp add: spec_of_def)
  qed
  then have 6: "present weights weight_order = [''dense/kernel'', ''dense/bias'']
              \<and> arr_shape (the (weights ''dense/kernel'')) = [4, 3]
              \<and> arr_shape (the (weights ''dense/bias'')) = [3]
            \<longrightarrow> length ?bytes = 60
                \<and> ?specs = [\<lparr>name = ''dense/kernel'', shape = [4, 3], dtype = ''float32''\<rparr>,
                            \<lparr>name = ''dense/bias'', shape = [3], dtype = ''float32''\<rparr>]"
    by (rule impI)
  show ?thesis
    by (rule exI [of _ ?specs], rule exI [of _ ?bytes], rule conjI [OF 1], rule conjI [OF 2],
        rule conjI [OF 3], rule conjI [OF 4], rule 6)
qed

theorem packer_length_and_specs_witness:
  "pack_ready fresh_world ''/out'' \<and> all_castable Some two_tensors \<and> all_wf two_tensors
   \<and> present two_tensors weight_order = [''dense/kernel'', ''dense/bias'']
   \<and> arr_shape (the (two_tensors ''dense/kernel'')) = [4, 3]
   \<and> arr_shape (the (two_tensors ''dense/bias'')) = [3]
   \<and> (\<exists>bytes.
         node_at (snd (create_tfjs_weights Some two_tensors ''/out'' fresh_world)) (bin_file ''/out'') =
           Some (File bytes)
       \<and> length bytes = 60)
   \<and> fst (create_tfjs_weights Some two_tensors ''/out'' fresh_world) =
        Inr [\<lparr>name = ''dense/kernel'', shape = [4, 3], dtype = ''float32''\<rparr>,
             \<lparr>name = ''dense/bias'', shape = [3], dtype = ''float32''\<rparr>]"
proof -
  have h1: "pack_ready fresh_world ''/out''" by (rule sample_worlds_ready)
  have h4: "present two_tensors weight_order = [''dense/kernel'', ''dense/bias'']
     \<and> arr_shape (the (two_tensors ''dense/kernel'')) = [4, 3]
     \<and> arr_shape (the (two_tensors ''dense/bias'')) = [3]"
    by (simp add: two_tensors_present) (simp add: two_tensors_def)
  from packer_length_and_specs [OF h1 two_tensors_ok]
  obtain specs bytes where E:
    "fst (create_tfjs_weights Some two_tensors ''/out'' fresh_world) = Inr specs
     \<and> node_at (snd (create_tfjs_weights Some two_tensors ''/out'' fresh_world)) (bin_file ''/out'') =
       Some (File bytes)
     \<and> length bytes =
         sum_list (map (\<lambda>n. 4 * arr_size (the (two_tensors n))) (present two_tensors weight_order))
     \<and> specs =
         map (\<lambda>n. \<lparr>name = n, shape = arr_shape (the (two_tensors n)), dtype = ''float32''\<rparr>)
           (present two_tensors weight_order)
     \<and> (present two_tensors weight_order = [''dense/kernel'', ''dense/bias'']
          \<and> arr_shape (the (two_tensors ''dense/kernel'')) = [4, 3]
          \<and> arr_shape (the (two_tensors ''dense/bias'')) = [3]
        \<longrightarrow> length bytes = 60
            \<and> specs = [\<lparr>name = ''dense/kernel'', shape = [4, 3], dtype = ''float32''\<rparr>,
                       \<lparr>name = ''dense/bias'', shape = [3], dtype = ''float32''\<rparr>])"
    by (elim exE)
  from E have A: "fst (create_tfjs_weights Some two_tensors ''/out'' fresh_world) = Inr specs"
    and B: "node_at (snd (create_tfjs_weights Some two_tensors ''/out'' fresh_world)) (bin_file ''/out'') =
       Some (File bytes)"
    by (rule conjunct1, rule conjunct2 [THEN conjunct1])
  from E have I: "present two_tensors weight_order = [''dense/kernel'', ''dense/bias'']
          \<and> arr_shape (the (two_tensors ''dense/kernel'')) = [4, 3]
          \<and> arr_shape (the (two_tensors ''dense/bias'')) = [3]
        \<longrightarrow> length bytes = 60
            \<and> specs = [\<lparr>name = ''dense/kernel'', shape = [4, 3], dtype = ''float32''\<rparr>,
                       \<lparr>name = ''dense/bias'', shape = [3], dtype = ''float32''\<rparr>]"
    by (elim conjE)
  from I h4 have C: "length bytes = 60
      \<and> specs = [\<lparr>name = ''dense/kernel'', shape = [4, 3], dtype = ''float32''\<rparr>,
                 \<lparr>name = ''dense/bias'', shape = [3], dtype = ''float32''\<rparr>]"
    by (rule mp)
  have x: "\<exists>bytes.
         node_at (snd (create_tfjs_weights Some two_tensors ''/out'' fresh_world)) (bin_file ''/out'') =
           Some (File bytes)
       \<and> length bytes = 60"
    using B C by (intro exI [of _ bytes] conjI) (assumption, rule conjunct1)
  have y: "fst (create_tfjs_weights Some two_tensors ''/out'' fresh_world) =
        Inr [\<lparr>name = ''dense/kernel'', shape = [4, 3], dtype = ''float32''\<rparr>,
             \<lparr>name = ''dense/bias'', shape = [3], dtype = ''float32''\<rparr>]"
    using A unfolding C [THEN conjunct2] .
  show ?thesis
    by (intro conjI h1 two_tensors_ok h4 [THEN conjunct1] h4 [THEN conjunct2, THEN conjunct1]
        h4 [THEN conjunct2, THEN conjunct2] x y)
qed



section \<open>Claims about the driver\<close>




text \<open>
  Claim C1, as amended. A job whose container is read without an exception but gives a
  WeightSet with none of the eight slots is not skipped: with an output place that can
  be made, the driver creates the output directory and calls the Packer, which leaves
  an empty \<^verbatim>\<open>group1-shard1of1.bin\<close> and reports 0 bytes, and the driver reports
  success. The driver skips a job after an extraction only when the Extractor returns
  \<^verbatim>\<open>None\<close>: then it prints the failure line and changes nothing in the file system, so
  that no directory is made and the Packer does not run.
\<close>

theorem empty_weightset_is_converted:
  "(os_path_exists w h5_path
      \<and> fst (extract_h5_weights decode h5_path w) = Inr (Some weights)
      \<and> list_all (\<lambda>n. weights n = None) weight_order
      \<and> out_ready w (os_path_join base model_name)
    \<longrightarrow> fst (convert_model decode cast base (model_name, h5_path) w) = Inr ()
        \<and> node_at (snd (convert_model decode cast base (model_name, h5_path) w))
             (resolve (os_path_join base model_name)) = Some Dir
        \<and> node_at (snd (convert_model decode cast base (model_name, h5_path) w))
             (bin_file (os_path_join base model_name)) = Some (File [])
        \<and> (\<exists>ms. out (snd (convert_model decode cast base (model_name, h5_path) w)) =
             ms @ [CreatedBin (os_path_join (os_path_join base model_name) ''group1-shard1of1.bin''),
                   TotalSize 0, Success model_name, SavedTo (os_path_join base model_name)]))
   \<and> (os_path_exists w2 h5_path2 \<and> fst (extract_h5_weights decode h5_path2 w2) = Inr None
    \<longrightarrow> fst (convert_model decode cast base (model_name2, h5_path2) w2) = Inr ()
        \<and> fs (snd (convert_model decode cast base (model_name2, h5_path2) w2)) = fs w2
        \<and> (\<exists>ms. out (snd (convert_model decode cast base (model_name2, h5_path2) w2)) =
             ms @ [FailedToExtract h5_path2]))"
proof (intro conjI impI)
  assume h: "os_path_exists w h5_path
      \<and> fst (extract_h5_weights decode h5_path w) = Inr (Some weights)
      \<and> list_all (\<lambda>n. weights n = None) weight_order
      \<and> out_ready w (os_path_join base model_name)"
  then have h1: "os_path_exists w h5_path"
    and h2: "fst (extract_h5_weights decode h5_path w) = Inr (Some weights)"
    and h3: "list_all (\<lambda>n. weights n = None) weight_order"
    and h4: "out_ready w (os_path_join base model_name)" by simp_all
  note E = convert_model_empty [OF h1 h2 h3 h4, of cast]
  show "fst (convert_model decode cast base (model_name, h5_path) w) = Inr ()" by (rule E(1))
  show "node_at (snd (convert_model decode cast base (model_name, h5_path) w))
             (resolve (os_path_join base model_name)) = Some Dir" by (rule E(2))
  show "node_at (snd (convert_model decode cast base (model_name, h5_path) w))
             (bin_file (os_path_join base model_name)) = Some (File [])" by (rule E(3))
  show "\<exists>ms. out (snd (convert_model decode cast base (model_name, h5_path) w)) =
             ms @ [CreatedBin (os_path_join (os_path_join base model_name) ''group1-shard1of1.bin''),
                   TotalSize 0, Success model_name, SavedTo (os_path_join base model_name)]"
    by (rule E(4))
next
  assume h: "os_path_exists w2 h5_path2 \<and> fst (extract_h5_weights decode h5_path2 w2) = Inr None"
  then have h1: "os_path_exists w2 h5_path2"
    and h2: "fst (extract_h5_weights decode h5_path2 w2) = Inr None" by simp_all
  note F = convert_model_failed [OF h1 h2, of cast base model_name2]
  show "fst (convert_model decode cast base (model_name2, h5_path2) w2) = Inr ()"
    by (simp add: F)
  show "fs (snd (convert_model decode cast base (model_name2, h5_path2) w2)) = fs w2"
    by (simp add: F print_fs extract_h5_weights_fs)
  show "\<exists>ms. out (snd (convert_model decode cast base (model_name2, h5_path2) w2)) =
             ms @ [FailedToExtract h5_path2]"
    by (simp add: F print_def)
qed

theorem empty_weightset_is_converted_witness:
  "os_path_exists input_world ''/in/empty.h5''
   \<and> fst (extract_h5_weights sample_decode ''/in/empty.h5'' input_world) = Inr (Some Map.empty)
   \<and> list_all (\<lambda>n. (Map.empty :: float32 weights) n = None) weight_order
   \<and> out_ready input_world (os_path_join ''/out'' ''ddpg'')
   \<and> os_path_exists input_world ''/in/nolayers.h5''
   \<and> fst (extract_h5_weights sample_decode ''/in/nolayers.h5'' input_world) = Inr None
   \<and> fst (convert_model sample_decode Some ''/out'' (''ddpg'', ''/in/empty.h5'') input_world) = Inr ()
   \<and> node_at (snd (convert_model sample_decode Some ''/out'' (''ddpg'', ''/in/empty.h5'') input_world))
        [''out'', ''ddpg''] = Some Dir
   \<and> node_at (snd (convert_model sample_decode Some ''/out'' (''ddpg'', ''/in/empty.h5'') input_world))
        [''out'', ''ddpg'', ''group1-shard1of1.bin''] = Some (File [])
   \<and> fst (convert_model sample_decode Some ''/out'' (''td3'', ''/in/nolayers.h5'') input_world) = Inr ()
   \<and> fs (snd (convert_model sample_decode Some ''/out'' (''td3'', ''/in/nolayers.h5'') input_world)) =
        fs input_world"
proof -
  have hA: "os_path_exists input_world ''/in/empty.h5''
      \<and> fst (extract_h5_weights sample_decode ''/in/empty.h5'' input_world) = Inr (Some Map.empty)
      \<and> list_all (\<lambda>n. (Map.empty :: float32 weights) n = None) weight_order
      \<and> out_ready input_world (os_path_join ''/out'' ''ddpg'')"
    by (intro conjI sample_exists sample_extractions empty_weights_none sample_out_ready)
  have hB: "os_path_exists input_world ''/in/nolayers.h5''
      \<and> fst (extract_h5_weights sample_decode ''/in/nolayers.h5'' input_world) = Inr None"
    by (intro conjI sample_exists sample_extractions)
  note T = empty_weightset_is_converted [of input_world "''/in/empty.h5''" sample_decode Map.empty
      "''/out''" "''ddpg''" Some input_world "''/in/nolayers.h5''" "''td3''"]
  note A = T [THEN conjunct1, THEN mp, OF hA, unfolded ddpg_paths]
  note B = T [THEN conjunct2, THEN mp, OF hB]
  show ?thesis
    by (intro conjI hA [THEN conjunct1] hA [THEN conjunct2, THEN conjunct1]
        hA [THEN conjunct2, THEN conjunct2, THEN conjunct1]
        hA [THEN conjunct2, THEN conjunct2, THEN conjunct2]
        hB [THEN conjunct1] hB [THEN conjunct2]
        A [THEN conjunct1] A [THEN conjunct2, THEN conjunct1]
        A [THEN conjunct2, THEN conjunct2, THEN conjunct1]
        B [THEN conjunct1] B [THEN conjunct2, THEN conjunct1])
qed

text \<open>
  Claim C1 as stated fails on the container \<^verbatim>\<open>/in/empty.h5\<close>, whose group \<^verbatim>\<open>layers\<close>
  is empty: the traversal succeeds with a WeightSet without any tensor, and the driver
  makes the directory \<^verbatim>\<open>/out/ddpg\<close>, which did not exist, and has the Packer write an
  empty binary file there.
\<close>

theorem empty_weightset_not_skipped:
  "fst (extract_h5_weights sample_decode ''/in/empty.h5'' input_world) = Inr (Some Map.empty)
   \<and> node_at input_world [''out'', ''ddpg''] = None
   \<and> node_at (snd (convert_model sample_decode Some ''/out'' (''ddpg'', ''/in/empty.h5'') input_world))
        [''out'', ''ddpg''] = Some Dir
   \<and> node_at (snd (convert_model sample_decode Some ''/out'' (''ddpg'', ''/in/empty.h5'') input_world))
        [''out'', ''ddpg'', ''group1-shard1of1.bin''] = Some (File [])"
proof -
  note E = convert_model_empty [OF sample_exists(2) sample_extractions(2) empty_weights_none
      sample_out_ready, of Some, unfolded ddpg_paths]
  have n: "node_at input_world [''out'', ''ddpg''] = None"
    by (simp add: node_at_def input_world_def)
  show ?thesis
    by (intro conjI sample_extractions(2) n E(2) E(3))
qed




end
